theory Spec2Isabelle
  imports Main
begin

section \<open>JavaScript values, errors and asynchronous calls\<close>

text \<open>
  A thrown JavaScript value is modelled by the two properties the program reads from it:
  \<open>error.code\<close> (absent on a plain \<open>Error\<close>) and \<open>error.message\<close>.
\<close>

datatype jserr = JsError (code: "int option") (message: string)

definition Error :: "string \<Rightarrow> jserr" where
  \<comment> \<open>\<open>new Error(msg)\<close>\<close>
  "Error msg = JsError None msg"

text \<open>A JavaScript number as far as the program produces one: an integer or \<open>NaN\<close>.\<close>

datatype number = NaN | Num int

definition strict_eq :: "number \<Rightarrow> number \<Rightarrow> bool" where
  \<comment> \<open>\<open>a === b\<close> on numbers: \<open>NaN\<close> equals nothing\<close>
  "strict_eq a b = (case (a, b) of (Num x, Num y) \<Rightarrow> x = y | _ \<Rightarrow> False)"

text \<open>
  An \<open>async\<close> function is a state transformer that ends in a thrown error (\<open>Inl\<close>)
  or a returned value (\<open>Inr\<close>). \<open>await\<close> sequences two of them, \<open>try_catch\<close>
  is \<open>try { ... } catch (error) { ... }\<close> and \<open>try_finally\<close> is
  \<open>try { ... } finally { ... }\<close>.
\<close>

type_synonym ('a, 's) prog = "'s \<Rightarrow> (jserr + 'a) \<times> 's"

definition return :: "'a \<Rightarrow> ('a, 's) prog" where
  "return x s = (Inr x, s)"

definition throw :: "jserr \<Rightarrow> ('a, 's) prog" where
  "throw e s = (Inl e, s)"

definition await :: "('a, 's) prog \<Rightarrow> ('a \<Rightarrow> ('b, 's) prog) \<Rightarrow> ('b, 's) prog" where
  "await m f s = (case m s of (Inl e, s') \<Rightarrow> (Inl e, s') | (Inr x, s') \<Rightarrow> f x s')"

definition try_catch :: "('a, 's) prog \<Rightarrow> (jserr \<Rightarrow> ('a, 's) prog) \<Rightarrow> ('a, 's) prog" where
  "try_catch m h s = (case m s of (Inl e, s') \<Rightarrow> h e s' | (Inr x, s') \<Rightarrow> (Inr x, s'))"

definition try_finally :: "('a, 's) prog \<Rightarrow> ('s \<Rightarrow> 's) \<Rightarrow> ('a, 's) prog" where
  "try_finally m fin s = (case m s of (r, s') \<Rightarrow> (r, fin s'))"

definition or_else :: "string \<Rightarrow> string \<Rightarrow> string" where
  \<comment> \<open>\<open>s || d\<close> on strings: the empty string is falsy\<close>
  "or_else s d = (if s = [] then d else s)"

subsection \<open>Number parsing and printing\<close>

definition isWhiteSpace :: "char \<Rightarrow> bool" where
  "isWhiteSpace c = (c \<in> set [CHR '' '', CHR 0x09, CHR 0x0A, CHR 0x0B, CHR 0x0C, CHR 0x0D])"

definition hexDigitVal :: "char \<Rightarrow> nat option" where
  "hexDigitVal c =
     (let n = (of_char c :: nat) in
      if 48 \<le> n \<and> n \<le> 57 then Some (n - 48)
      else if 97 \<le> n \<and> n \<le> 102 then Some (n - 87)
      else if 65 \<le> n \<and> n \<le> 70 then Some (n - 55)
      else None)"

definition hexVal :: "char \<Rightarrow> nat" where
  "hexVal c = (case hexDigitVal c of Some v \<Rightarrow> v | None \<Rightarrow> 0)"

definition parseInt16 :: "string \<Rightarrow> number" where
  \<comment> \<open>\<open>parseInt(str, 16)\<close>: leading white space, a sign, a \<open>0x\<close> prefix, then the
      longest run of hexadecimal digits; \<open>NaN\<close> when that run is empty\<close>
  "parseInt16 str =
     (let s = dropWhile isWhiteSpace str;
          neg = (case s of [] \<Rightarrow> False | c # _ \<Rightarrow> c = CHR ''-'');
          s1 = (case s of [] \<Rightarrow> [] | c # cs \<Rightarrow> if c = CHR ''+'' \<or> c = CHR ''-'' then cs else s);
          s2 = (if take 2 s1 = ''0x'' \<or> take 2 s1 = ''0X'' then drop 2 s1 else s1);
          z = takeWhile (\<lambda>c. hexDigitVal c \<noteq> None) s2
      in if z = [] then NaN
         else Num ((if neg then - 1 else 1) * int (foldl (\<lambda>a c. 16 * a + hexVal c) 0 z)))"

definition digitChar :: "nat \<Rightarrow> char" where
  \<comment> \<open>the digit of a value below the radix\<close>
  "digitChar d = ''0123456789abcdefghijklmnopqrstuvwxyz'' ! d"

fun natToString :: "nat \<Rightarrow> nat \<Rightarrow> string" where
  "natToString r n =
     (if r < 2 \<or> n < r then [digitChar n] else natToString r (n div r) @ [digitChar (n mod r)])"

definition toString :: "nat \<Rightarrow> int \<Rightarrow> string" where
  \<comment> \<open>\<open>n.toString(radix)\<close> on an integer\<close>
  "toString r n = (if n < 0 then CHR ''-'' # natToString r (nat (- n)) else natToString r (nat n))"

section \<open>Supported networks\<close>

record NativeCurrency =
  cur_name :: string
  cur_symbol :: string
  cur_decimals :: nat

record NetworkDetails =
  net_name :: string
  nativeCurrency :: NativeCurrency
  rpcUrls :: "string list"
  blockExplorerUrls :: "string list"

definition SUPPORTED_NETWORKS :: "(int \<times> NetworkDetails) list" where
  \<comment> \<open>the object literal, in the order \<open>Object.keys\<close> lists its integer keys\<close>
  "SUPPORTED_NETWORKS =
    [(1, \<lparr>net_name = ''Ethereum Mainnet'',
          nativeCurrency = \<lparr>cur_name = ''Ether'', cur_symbol = ''ETH'', cur_decimals = 18\<rparr>,
          rpcUrls = [''https://mainnet.infura.io/v3/''],
          blockExplorerUrls = [''https://etherscan.io'']\<rparr>),
     (5, \<lparr>net_name = ''Goerli Testnet'',
          nativeCurrency = \<lparr>cur_name = ''Goerli Ether'', cur_symbol = ''ETH'', cur_decimals = 18\<rparr>,
          rpcUrls = [''https://goerli.infura.io/v3/''],
          blockExplorerUrls = [''https://goerli.etherscan.io'']\<rparr>),
     (137, \<lparr>net_name = ''Polygon Mainnet'',
          nativeCurrency = \<lparr>cur_name = ''MATIC'', cur_symbol = ''MATIC'', cur_decimals = 18\<rparr>,
          rpcUrls = [''https://polygon-rpc.com''],
          blockExplorerUrls = [''https://polygonscan.com'']\<rparr>),
     (50002, \<lparr>net_name = ''PHAROS'',
          nativeCurrency = \<lparr>cur_name = ''PHAROS'', cur_symbol = ''PHAROS'', cur_decimals = 18\<rparr>,
          rpcUrls = [''https://devnet.dplabs-internal.com''],
          blockExplorerUrls = []\<rparr>),
     (80001, \<lparr>net_name = ''Mumbai Testnet'',
          nativeCurrency = \<lparr>cur_name = ''MATIC'', cur_symbol = ''MATIC'', cur_decimals = 18\<rparr>,
          rpcUrls = [''https://rpc-mumbai.maticvigil.com''],
          blockExplorerUrls = [''https://mumbai.polygonscan.com'']\<rparr>),
     (11155111, \<lparr>net_name = ''Sepolia Testnet'',
          nativeCurrency = \<lparr>cur_name = ''Sepolia Ether'', cur_symbol = ''ETH'', cur_decimals = 18\<rparr>,
          rpcUrls = [''https://sepolia.infura.io/v3/''],
          blockExplorerUrls = [''https://sepolia.etherscan.io'']\<rparr>)]"

definition DEFAULT_NETWORK_ID :: int where
  "DEFAULT_NETWORK_ID = 50002"

definition supported_lookup :: "number \<Rightarrow> NetworkDetails option" where
  \<comment> \<open>\<open>SUPPORTED_NETWORKS[chainId]\<close>; no property is named \<open>NaN\<close>\<close>
  "supported_lookup n = (case n of NaN \<Rightarrow> None | Num c \<Rightarrow> map_of SUPPORTED_NETWORKS c)"

definition supported_includes :: "number \<Rightarrow> bool" where
  \<comment> \<open>\<open>Object.keys(SUPPORTED_NETWORKS).map(Number).includes(chainId)\<close>\<close>
  "supported_includes n = (case n of NaN \<Rightarrow> False | Num c \<Rightarrow> c \<in> set (map fst SUPPORTED_NETWORKS))"


section \<open>The browser environment\<close>

subsection \<open>The wallet provider\<close>

record AddChainParams =
  p_chainId :: string
  p_chainName :: string
  p_nativeCurrency :: NativeCurrency
  p_rpcUrls :: "string list"
  p_blockExplorerUrls :: "string list"

text \<open>
  \<open>window.ethereum\<close> is an external collaborator: a wallet extension with a state of its
  own (\<open>'w\<close>) that answers each JSON-RPC request with a value or an error and may change
  its state while doing so. The program is verified against every such wallet.
  \<open>signer_getAddress\<close> is the \<open>getAddress()\<close> of the ethers signer bound to it.
\<close>

record 'w ethereum =
  eth_requestAccounts :: "'w \<Rightarrow> (jserr + string list option) \<times> 'w"
  eth_accounts :: "'w \<Rightarrow> (jserr + string list) \<times> 'w"
  eth_chainId :: "'w \<Rightarrow> (jserr + string) \<times> 'w"
  wallet_switchEthereumChain :: "string \<Rightarrow> 'w \<Rightarrow> (jserr + unit) \<times> 'w"
  wallet_addEthereumChain :: "AddChainParams \<Rightarrow> 'w \<Rightarrow> (jserr + unit) \<times> 'w"
  signer_getAddress :: "'w \<Rightarrow> (jserr + string) \<times> 'w"

subsection \<open>The object database\<close>

datatype Status = Active | Inactive

record EmployerRecord =
  er_address :: string
  er_name :: "string option"
  er_registrationDate :: int
  er_lastLogin :: "int option"

record EmployeeRecord =
  ee_address :: string
  ee_name :: string
  ee_employerAddress :: string
  ee_amount :: string
  ee_schedule :: string
  ee_registrationDate :: int
  ee_lastPaid :: "int option"
  ee_status :: Status

text \<open>The argument of \<open>employerDB.add\<close>: a record without its \<open>registrationDate\<close>.\<close>

record EmployerData =
  ed_address :: string
  ed_name :: "string option"
  ed_lastLogin :: "int option"

text \<open>The argument of \<open>employeeDB.add\<close>: a record without \<open>registrationDate\<close> and \<open>status\<close>.\<close>

record EmployeeData =
  dd_address :: string
  dd_name :: string
  dd_employerAddress :: string
  dd_amount :: string
  dd_schedule :: string
  dd_lastPaid :: "int option"

text \<open>The arguments of \<open>update\<close>: the address and any of the other fields (\<open>None\<close>: absent).\<close>

record EmployerPatch =
  ep_address :: string
  ep_name :: "string option"
  ep_registrationDate :: "int option"
  ep_lastLogin :: "int option"

record EmployeePatch =
  pp_address :: string
  pp_name :: "string option"
  pp_employerAddress :: "string option"
  pp_amount :: "string option"
  pp_schedule :: "string option"
  pp_registrationDate :: "int option"
  pp_lastPaid :: "int option"
  pp_status :: "Status option"

text \<open>
  The two object stores, both with key path \<open>address\<close>, and the outcome the browser has
  in store for the coming requests: \<open>Some e\<close> makes the next request reject with \<open>e\<close>
  (the database cannot be opened, a transaction aborts), \<open>None\<close> or an exhausted list
  lets it through.
\<close>

record idb =
  employers :: "string \<rightharpoonup> EmployerRecord"
  employees :: "string \<rightharpoonup> EmployeeRecord"
  faults :: "jserr option list"

datatype ObjectStore = EmployersStore | EmployeesStore

subsection \<open>The client state\<close>

datatype Role = Employer | Employee

text \<open>The user store (\<open>useUserStore\<close>); \<open>UserRole\<close> is \<open>Role option\<close>, \<open>None\<close> for \<open>null\<close>.\<close>

record UserState =
  u_address :: "string option"
  u_role :: "Role option"
  u_isConnected :: bool
  u_isAuthenticated :: bool
  u_employerAddress :: "string option"

text \<open>Every effect on a collaborator is recorded, in the order the program performs it.\<close>

datatype event =
    EthRequestAccounts
  | EthAccounts
  | SignerGetAddress
  | EthChainId
  | WalletSwitchEthereumChain string
  | WalletAddEthereumChain AddChainParams
  | DbGet ObjectStore string
  | DbAdd ObjectStore string
  | DbPut ObjectStore string
  | SetAddress "string option"
  | SetRole "Role option"
  | SetIsConnected bool
  | SetIsAuthenticated bool
  | SetEmployerAddress "string option"
  | RouterPush string

record 'w world =
  wallet :: 'w
  db :: idb
  clock :: int
  signer :: bool
  user :: UserState
  h_isLoading :: bool
  h_error :: "string option"
  trace :: "event list"

definition modify :: "('s \<Rightarrow> 's) \<Rightarrow> (unit, 's) prog" where
  "modify f s = (Inr (), f s)"

definition rpc :: "event \<Rightarrow> ('w \<Rightarrow> (jserr + 'a) \<times> 'w) \<Rightarrow> ('a, 'w world) prog" where
  \<comment> \<open>one request to the wallet\<close>
  "rpc ev call s =
     (case call (wallet s) of (r, w') \<Rightarrow> (r, s\<lparr>wallet := w', trace := trace s @ [ev]\<rparr>))"

definition idb_request :: "event \<Rightarrow> (idb \<Rightarrow> (jserr + 'a) \<times> idb) \<Rightarrow> ('a, 'w world) prog" where
  \<comment> \<open>one request to the object database, after \<open>await getDB()\<close>\<close>
  "idb_request ev op s =
     (let s1 = s\<lparr>trace := trace s @ [ev]\<rparr> in
      case faults (db s) of
        [] \<Rightarrow> (case op (db s) of (r, d') \<Rightarrow> (r, s1\<lparr>db := d'\<rparr>))
      | None # fs \<Rightarrow> (case op ((db s)\<lparr>faults := fs\<rparr>) of (r, d') \<Rightarrow> (r, s1\<lparr>db := d'\<rparr>))
      | Some e # fs \<Rightarrow> (Inl e, s1\<lparr>db := (db s)\<lparr>faults := fs\<rparr>\<rparr>))"

definition ConstraintError :: jserr where
  \<comment> \<open>the \<open>DOMException\<close> of an \<open>add\<close> whose key is already in the store\<close>
  "ConstraintError = JsError (Some 0) ''Key already exists in the object store.''"

section \<open>The persistence layer\<close>

definition employerDB_add :: "EmployerData \<Rightarrow> (string, 'w world) prog" where
  "employerDB_add employerData s =
     idb_request (DbAdd EmployersStore (ed_address employerData))
       (\<lambda>d. case employers d (ed_address employerData) of
               Some _ \<Rightarrow> (Inl ConstraintError, d)
             | None \<Rightarrow>
                 (Inr (ed_address employerData),
                  d\<lparr>employers := (employers d)(ed_address employerData \<mapsto>
                       \<lparr>er_address = ed_address employerData,
                        er_name = ed_name employerData,
                        er_registrationDate = clock s,
                        er_lastLogin = ed_lastLogin employerData\<rparr>)\<rparr>)) s"

definition employerDB_get :: "string \<Rightarrow> (EmployerRecord option, 'w world) prog" where
  "employerDB_get a = idb_request (DbGet EmployersStore a) (\<lambda>d. (Inr (employers d a), d))"

definition merge_opt :: "'a \<Rightarrow> 'a option \<Rightarrow> 'a" where
  \<comment> \<open>a field of \<open>{ ...existing, ...patch }\<close>\<close>
  "merge_opt old new = (case new of None \<Rightarrow> old | Some v \<Rightarrow> v)"

definition employerDB_update :: "EmployerPatch \<Rightarrow> (string, 'w world) prog" where
  "employerDB_update employerData =
     await (idb_request (DbGet EmployersStore (ep_address employerData))
              (\<lambda>d. (Inr (employers d (ep_address employerData)), d)))
       (\<lambda>existing. case existing of
            None \<Rightarrow> throw (Error ''Employer not found'')
          | Some ex \<Rightarrow>
              idb_request (DbPut EmployersStore (ep_address employerData))
                (\<lambda>d. (Inr (ep_address employerData),
                       d\<lparr>employers := (employers d)(ep_address employerData \<mapsto>
                           \<lparr>er_address = ep_address employerData,
                            er_name = (case ep_name employerData of None \<Rightarrow> er_name ex | Some n \<Rightarrow> Some n),
                            er_registrationDate = merge_opt (er_registrationDate ex) (ep_registrationDate employerData),
                            er_lastLogin = (case ep_lastLogin employerData of None \<Rightarrow> er_lastLogin ex | Some t \<Rightarrow> Some t)\<rparr>)\<rparr>)))"

definition employeeDB_add :: "EmployeeData \<Rightarrow> (string, 'w world) prog" where
  "employeeDB_add employeeData s =
     idb_request (DbAdd EmployeesStore (dd_address employeeData))
       (\<lambda>d. case employees d (dd_address employeeData) of
               Some _ \<Rightarrow> (Inl ConstraintError, d)
             | None \<Rightarrow>
                 (Inr (dd_address employeeData),
                  d\<lparr>employees := (employees d)(dd_address employeeData \<mapsto>
                       \<lparr>ee_address = dd_address employeeData,
                        ee_name = dd_name employeeData,
                        ee_employerAddress = dd_employerAddress employeeData,
                        ee_amount = dd_amount employeeData,
                        ee_schedule = dd_schedule employeeData,
                        ee_registrationDate = clock s,
                        ee_lastPaid = dd_lastPaid employeeData,
                        ee_status = Active\<rparr>)\<rparr>)) s"

definition employeeDB_get :: "string \<Rightarrow> (EmployeeRecord option, 'w world) prog" where
  "employeeDB_get a = idb_request (DbGet EmployeesStore a) (\<lambda>d. (Inr (employees d a), d))"

definition employeeDB_update :: "EmployeePatch \<Rightarrow> (string, 'w world) prog" where
  "employeeDB_update employeeData =
     await (idb_request (DbGet EmployeesStore (pp_address employeeData))
              (\<lambda>d. (Inr (employees d (pp_address employeeData)), d)))
       (\<lambda>existing. case existing of
            None \<Rightarrow> throw (Error ''Employee not found'')
          | Some ex \<Rightarrow>
              idb_request (DbPut EmployeesStore (pp_address employeeData))
                (\<lambda>d. (Inr (pp_address employeeData),
                       d\<lparr>employees := (employees d)(pp_address employeeData \<mapsto>
                           \<lparr>ee_address = pp_address employeeData,
                            ee_name = merge_opt (ee_name ex) (pp_name employeeData),
                            ee_employerAddress = merge_opt (ee_employerAddress ex) (pp_employerAddress employeeData),
                            ee_amount = merge_opt (ee_amount ex) (pp_amount employeeData),
                            ee_schedule = merge_opt (ee_schedule ex) (pp_schedule employeeData),
                            ee_registrationDate = merge_opt (ee_registrationDate ex) (pp_registrationDate employeeData),
                            ee_lastPaid = (case pp_lastPaid employeeData of None \<Rightarrow> ee_lastPaid ex | Some t \<Rightarrow> Some t),
                            ee_status = merge_opt (ee_status ex) (pp_status employeeData)\<rparr>)\<rparr>)))"

section \<open>The authentication service\<close>

record NetworkStatus =
  ns_valid :: bool
  ns_chainId :: number
  ns_name :: string

definition checkNetwork :: "'w ethereum option \<Rightarrow> (NetworkStatus, 'w world) prog" where
  "checkNetwork ethereum =
     (case ethereum of
        None \<Rightarrow> return \<lparr>ns_valid = False, ns_chainId = Num 0, ns_name = ''No wallet detected''\<rparr>
      | Some eth \<Rightarrow>
          try_catch
            (await (rpc EthChainId (eth_chainId eth)) (\<lambda>chainIdHex.
               let chainId = parseInt16 chainIdHex;
                   isSupported = supported_includes chainId;
                   networkName =
                     (case (if isSupported then supported_lookup chainId else None) of
                        Some details \<Rightarrow> net_name details
                      | None \<Rightarrow> ''Unknown Network'')
               in return \<lparr>ns_valid = isSupported, ns_chainId = chainId, ns_name = networkName\<rparr>))
            (\<lambda>error. return \<lparr>ns_valid = False, ns_chainId = Num 0,
                               ns_name = ''Error checking network''\<rparr>))"

definition connectWallet :: "'w ethereum option \<Rightarrow> (string, 'w world) prog" where
  "connectWallet ethereum =
     (case ethereum of
        None \<Rightarrow> throw (Error ''MetaMask or compatible wallet not detected. Please install a Web3 wallet to continue.'')
      | Some eth \<Rightarrow>
          try_catch
            (await (rpc EthRequestAccounts (eth_requestAccounts eth)) (\<lambda>accounts.
               case accounts of
                 None \<Rightarrow> throw (Error ''No accounts found. Please ensure your wallet is unlocked and try again.'')
               | Some [] \<Rightarrow> throw (Error ''No accounts found. Please ensure your wallet is unlocked and try again.'')
               | Some (account0 # _) \<Rightarrow>
                   await (rpc EthAccounts (eth_accounts eth)) (\<lambda>_.
                   await (modify (\<lambda>s. s\<lparr>signer := True\<rparr>)) (\<lambda>_.
                   await (try_catch
                            (await (rpc SignerGetAddress (signer_getAddress eth)) (\<lambda>address.
                               if address = [] then throw (Error ''Failed to get wallet address. Please try again.'')
                               else return address))
                            (\<lambda>error.
                               if account0 \<noteq> [] then return account0
                               else throw (Error ''Failed to get wallet address. Please try again.''))) (\<lambda>address.
                   await (checkNetwork ethereum) (\<lambda>networkStatus.
                   return address))))))
            (\<lambda>error.
               if code error = Some 4001 then
                 throw (Error ''You rejected the wallet connection request. Please try again and approve the connection.'')
               else if code error = Some (- 32002) then
                 throw (Error ''Wallet connection request already pending. Please check your wallet and approve the connection.'')
               else throw error))"

record RoleResult =
  rr_role :: "Role option"
  rr_employerAddress :: "string option"

definition checkUserRole :: "string \<Rightarrow> (RoleResult, 'w world) prog" where
  "checkUserRole address =
     try_catch
       (await (employerDB_get address) (\<lambda>employerData.
          case employerData of
            Some _ \<Rightarrow> return \<lparr>rr_role = Some Employer, rr_employerAddress = None\<rparr>
          | None \<Rightarrow>
              await (employeeDB_get address) (\<lambda>employeeData.
                case employeeData of
                  Some ee \<Rightarrow> return \<lparr>rr_role = Some Employee,
                                       rr_employerAddress = Some (ee_employerAddress ee)\<rparr>
                | None \<Rightarrow> return \<lparr>rr_role = None, rr_employerAddress = None\<rparr>)))
       (\<lambda>error. return \<lparr>rr_role = None, rr_employerAddress = None\<rparr>)"

record LoginResult =
  lr_address :: string
  lr_role :: "Role option"
  lr_employerAddress :: "string option"

definition login :: "'w ethereum option \<Rightarrow> (LoginResult, 'w world) prog" where
  "login ethereum =
     try_catch
       (await (connectWallet ethereum) (\<lambda>address.
        await (checkNetwork ethereum) (\<lambda>networkStatus.
          if \<not> ns_valid networkStatus then
            throw (Error (''Please switch to a supported network to login. Current network: ''
                          @ ns_name networkStatus))
          else
            await (checkUserRole address) (\<lambda>r.
              if rr_role r = None then
                throw (Error ''This wallet is not registered. Please register first to access the platform.'')
              else return \<lparr>lr_address = address, lr_role = rr_role r,
                           lr_employerAddress = rr_employerAddress r\<rparr>))))
       (\<lambda>error.
          if code error = Some 4001 then
            throw (Error ''You rejected the wallet connection request. Please try again and approve the connection.'')
          else throw error)"

definition ensureSigner :: "'w ethereum option \<Rightarrow> (unit, 'w world) prog" where
  \<comment> \<open>\<open>if (!this.signer) { await this.connectWallet(); }\<close> and the check that follows it\<close>
  "ensureSigner ethereum =
     await (\<lambda>s. if \<not> signer s then await (connectWallet ethereum) (\<lambda>_. return ()) s
                 else return () s) (\<lambda>_.
     (\<lambda>s. if \<not> signer s then
             throw (Error ''No wallet connection available. Please connect your wallet first.'') s
           else return () s))"

definition signerGetAddress :: "'w ethereum option \<Rightarrow> (string, 'w world) prog" where
  \<comment> \<open>\<open>this.signer.getAddress()\<close>; a signer exists only for a wallet\<close>
  "signerGetAddress ethereum =
     (case ethereum of
        None \<Rightarrow> throw (Error ''unknown account #0'')
      | Some eth \<Rightarrow> rpc SignerGetAddress (signer_getAddress eth))"

definition trim :: "string \<Rightarrow> string" where
  "trim str = rev (dropWhile isWhiteSpace (rev (dropWhile isWhiteSpace str)))"

definition rethrowSigner :: "jserr \<Rightarrow> ('a, 's) prog" where
  \<comment> \<open>the \<open>catch\<close> of both registration methods\<close>
  "rethrowSigner error =
     (if message error = ''No signer available'' then
        throw (Error ''Wallet connection failed. Please try connecting your wallet again.'')
      else throw error)"

definition registerAsEmployer :: "'w ethereum option \<Rightarrow> string \<Rightarrow> (bool, 'w world) prog" where
  "registerAsEmployer ethereum name =
     try_catch
       (await (ensureSigner ethereum) (\<lambda>_.
        await (checkNetwork ethereum) (\<lambda>networkStatus.
          if \<not> ns_valid networkStatus then
            throw (Error (''Please switch to a supported network to register. Current network: ''
                          @ ns_name networkStatus))
          else
            await (signerGetAddress ethereum) (\<lambda>address.
            await (checkUserRole address) (\<lambda>r.
              case rr_role r of
                Some Employer \<Rightarrow>
                  throw (Error ''This wallet is already registered as an employer. Please use a different wallet or log in instead.'')
              | Some Employee \<Rightarrow>
                  throw (Error ''This wallet is already registered as an employee. Please use a different wallet to register as an employer.'')
              | None \<Rightarrow>
                  await (employerDB_add \<lparr>ed_address = address,
                                          ed_name = Some (or_else (trim name) ''Employer''),
                                          ed_lastLogin = None\<rparr>) (\<lambda>_.
                  return True))))))
       rethrowSigner"

definition toLowerCase :: "string \<Rightarrow> string" where
  \<comment> \<open>on the letters A to Z; every other character is kept\<close>
  "toLowerCase str =
     map (\<lambda>c. case map_of (zip ''ABCDEFGHIJKLMNOPQRSTUVWXYZ'' ''abcdefghijklmnopqrstuvwxyz'') c of
                 Some l \<Rightarrow> l
               | None \<Rightarrow> c) str"

text \<open>
  \<open>getAddress\<close> stands for \<open>ethers.utils.getAddress\<close> of the ethers library: the
  checksummed form of a well-formed address, \<open>None\<close> where the library throws.
\<close>

definition registerAsEmployee ::
  "(string \<Rightarrow> string option) \<Rightarrow> 'w ethereum option \<Rightarrow> string \<Rightarrow> bool \<Rightarrow> (bool, 'w world) prog" where
  "registerAsEmployee getAddress ethereum employerAddress0 skipEmployerCheck =
     try_catch
       (case getAddress employerAddress0 of
          None \<Rightarrow> throw (Error ''Invalid employer address format. Please provide a valid Ethereum address.'')
        | Some employerAddress \<Rightarrow>
            await (ensureSigner ethereum) (\<lambda>_.
            await (checkNetwork ethereum) (\<lambda>networkStatus.
              if \<not> ns_valid networkStatus then
                throw (Error (''Please switch to a supported network to register. Current network: ''
                              @ ns_name networkStatus))
              else
                await (signerGetAddress ethereum) (\<lambda>address.
                  if toLowerCase address = toLowerCase employerAddress then
                    throw (Error ''You cannot register as an employee using your own address as the employer.'')
                  else
                    await (checkUserRole address) (\<lambda>r.
                      case rr_role r of
                        Some Employee \<Rightarrow>
                          throw (Error ''This wallet is already registered as an employee. Please use a different wallet or log in instead.'')
                      | Some Employer \<Rightarrow>
                          throw (Error ''This wallet is already registered as an employer. Please use a different wallet to register as an employee.'')
                      | None \<Rightarrow>
                          await (if \<not> skipEmployerCheck then
                                   await (employerDB_get employerAddress) (\<lambda>employerData.
                                     if employerData = None then
                                       throw (Error ''Employer not found. Please verify the employer address and try again.'')
                                     else return ())
                                 else return ()) (\<lambda>_.
                          await (employeeDB_add \<lparr>dd_address = address, dd_name = [],
                                                  dd_employerAddress = employerAddress,
                                                  dd_amount = ''0'', dd_schedule = ''monthly'',
                                                  dd_lastPaid = None\<rparr>) (\<lambda>_.
                          return True)))))))
       rethrowSigner"

definition switchNetwork :: "'w ethereum option \<Rightarrow> int \<Rightarrow> (bool, 'w world) prog" where
  "switchNetwork ethereum chainId =
     (case ethereum of
        None \<Rightarrow> throw (Error ''MetaMask or compatible wallet not detected. Please install a Web3 wallet to continue.'')
      | Some eth \<Rightarrow>
          try_catch
            (await (checkNetwork ethereum) (\<lambda>current.
               if strict_eq (ns_chainId current) (Num chainId) then return True
               else
                 await (rpc (WalletSwitchEthereumChain (''0x'' @ toString 16 chainId))
                          (wallet_switchEthereumChain eth (''0x'' @ toString 16 chainId))) (\<lambda>_.
                 await (checkNetwork ethereum) (\<lambda>new.
                 return (strict_eq (ns_chainId new) (Num chainId))))))
            (\<lambda>error.
               if code error = Some 4902 then
                 try_catch
                   (case supported_lookup (Num chainId) of
                      None \<Rightarrow>
                        throw (Error (''Network with chainId '' @ toString 10 chainId
                                      @ '' is not supported. Please contact support.''))
                    | Some networkDetails \<Rightarrow>
                        let params = \<lparr>p_chainId = ''0x'' @ toString 16 chainId,
                                      p_chainName = net_name networkDetails,
                                      p_nativeCurrency = nativeCurrency networkDetails,
                                      p_rpcUrls = rpcUrls networkDetails,
                                      p_blockExplorerUrls = blockExplorerUrls networkDetails\<rparr>
                        in await (rpc (WalletAddEthereumChain params)
                                    (wallet_addEthereumChain eth params)) (\<lambda>_.
                           await (checkNetwork ethereum) (\<lambda>added.
                           return (strict_eq (ns_chainId added) (Num chainId)))))
                   (\<lambda>addError.
                      throw (Error (''Failed to add network: '' @ or_else (message addError) ''Unknown error''
                                    @ ''. Please try adding the network manually in your wallet.'')))
               else if code error = Some 4001 then
                 throw (Error ''You rejected the network switch request. Please approve the network switch to continue.'')
               else
                 throw (Error (''Failed to switch network: '' @ or_else (message error) ''Unknown error''
                               @ ''. Please try switching networks manually in your wallet.''))))"

section \<open>The authentication hook\<close>

definition setAddress :: "string option \<Rightarrow> (unit, 'w world) prog" where
  "setAddress v = modify (\<lambda>s. s\<lparr>user := (user s)\<lparr>u_address := v\<rparr>, trace := trace s @ [SetAddress v]\<rparr>)"

definition setRole :: "Role option \<Rightarrow> (unit, 'w world) prog" where
  "setRole v = modify (\<lambda>s. s\<lparr>user := (user s)\<lparr>u_role := v\<rparr>, trace := trace s @ [SetRole v]\<rparr>)"

definition setIsConnected :: "bool \<Rightarrow> (unit, 'w world) prog" where
  "setIsConnected v =
     modify (\<lambda>s. s\<lparr>user := (user s)\<lparr>u_isConnected := v\<rparr>, trace := trace s @ [SetIsConnected v]\<rparr>)"

definition setIsAuthenticated :: "bool \<Rightarrow> (unit, 'w world) prog" where
  "setIsAuthenticated v =
     modify (\<lambda>s. s\<lparr>user := (user s)\<lparr>u_isAuthenticated := v\<rparr>,
                  trace := trace s @ [SetIsAuthenticated v]\<rparr>)"

definition setEmployerAddress :: "string option \<Rightarrow> (unit, 'w world) prog" where
  "setEmployerAddress v =
     modify (\<lambda>s. s\<lparr>user := (user s)\<lparr>u_employerAddress := v\<rparr>,
                  trace := trace s @ [SetEmployerAddress v]\<rparr>)"

definition routerPush :: "string \<Rightarrow> (unit, 'w world) prog" where
  "routerPush path = modify (\<lambda>s. s\<lparr>trace := trace s @ [RouterPush path]\<rparr>)"

definition useAuthentication_login :: "'w ethereum option \<Rightarrow> (unit, 'w world) prog" where
  \<comment> \<open>\<open>login\<close> of the hook \<open>useAuthentication\<close>\<close>
  "useAuthentication_login ethereum =
     await (modify (\<lambda>s. s\<lparr>h_isLoading := True, h_error := None\<rparr>)) (\<lambda>_.
     try_finally
       (try_catch
          (await (login ethereum) (\<lambda>res.
           await (setAddress (Some (lr_address res))) (\<lambda>_.
           await (setRole (lr_role res)) (\<lambda>_.
           await (setIsConnected True) (\<lambda>_.
           await (setIsAuthenticated True) (\<lambda>_.
           await (case lr_employerAddress res of
                    None \<Rightarrow> return ()
                  | Some employerAddress \<Rightarrow>
                      if lr_role res = Some Employee \<and> employerAddress \<noteq> [] then
                        setEmployerAddress (Some employerAddress)
                      else return ()) (\<lambda>_.
           if lr_role res = Some Employer then routerPush ''/employer''
           else if lr_role res = Some Employee then routerPush ''/employee''
           else return ())))))))
          (\<lambda>error.
             await (modify (\<lambda>s. s\<lparr>h_error := Some (or_else (message error) ''Failed to login'')\<rparr>)) (\<lambda>_.
             throw error)))
       (\<lambda>s. s\<lparr>h_isLoading := False\<rparr>))"

section \<open>Registration through the stores\<close>

text \<open>
  The two stores build a provider of their own from \<open>window.ethereum\<close> and ask its signer
  for the address. Their display state (\<open>isLoading\<close>, \<open>error\<close>, the cached record) has
  no effect on the database and is left out.
\<close>

definition freshSignerGetAddress :: "'w ethereum option \<Rightarrow> (string, 'w world) prog" where
  \<comment> \<open>\<open>new ethers.providers.Web3Provider(window.ethereum).getSigner().getAddress()\<close>\<close>
  "freshSignerGetAddress ethereum =
     (case ethereum of
        None \<Rightarrow> throw (Error ''missing provider'')
      | Some eth \<Rightarrow> rpc SignerGetAddress (signer_getAddress eth))"

definition useEmployerStore_registerAsEmployer :: "'w ethereum option \<Rightarrow> (unit, 'w world) prog" where
  "useEmployerStore_registerAsEmployer ethereum =
     await (freshSignerGetAddress ethereum) (\<lambda>address.
     await (employerDB_get address) (\<lambda>existingEmployer.
       case existingEmployer of
         Some _ \<Rightarrow> return ()
       | None \<Rightarrow>
           await (employerDB_add \<lparr>ed_address = address, ed_name = Some [], ed_lastLogin = None\<rparr>) (\<lambda>_.
           return ())))"

definition useEmployeeStore_registerAsEmployee ::
  "'w ethereum option \<Rightarrow> string \<Rightarrow> (unit, 'w world) prog" where
  "useEmployeeStore_registerAsEmployee ethereum employerAddress =
     await (freshSignerGetAddress ethereum) (\<lambda>address.
     await (employeeDB_get address) (\<lambda>existingEmployee.
       case existingEmployee of
         Some _ \<Rightarrow> return ()
       | None \<Rightarrow>
           await (employeeDB_add \<lparr>dd_address = address, dd_name = [],
                                   dd_employerAddress = employerAddress,
                                   dd_amount = ''0'', dd_schedule = ''monthly'',
                                   dd_lastPaid = None\<rparr>) (\<lambda>_.
           return ())))"

record EmployeeRegistrationData =
  rd_name :: string
  rd_address :: string
  rd_amount :: string
  rd_schedule :: string

record RegistrationResult =
  rg_success :: bool
  rg_error :: "string option"

definition handleEmployeeRegistration ::
  "'w ethereum option \<Rightarrow> string \<Rightarrow> EmployeeRegistrationData \<Rightarrow> (RegistrationResult, 'w world) prog" where
  "handleEmployeeRegistration ethereum employerAddress employeeData =
     try_catch
       (await (employerDB_get employerAddress) (\<lambda>employer.
        await (if employer = None then
                 await (employerDB_add \<lparr>ed_address = employerAddress,
                                         ed_name = Some ''Auto-registered Employer'',
                                         ed_lastLogin = None\<rparr>) (\<lambda>_. return ())
               else return ()) (\<lambda>_.
        await (useEmployeeStore_registerAsEmployee ethereum employerAddress) (\<lambda>_.
        await (try_catch
                 (employeeDB_add \<lparr>dd_address = rd_address employeeData,
                                   dd_name = rd_name employeeData,
                                   dd_employerAddress = employerAddress,
                                   dd_amount = rd_amount employeeData,
                                   dd_schedule = rd_schedule employeeData,
                                   dd_lastPaid = None\<rparr>)
                 (\<lambda>dbError. throw dbError)) (\<lambda>_.
        return \<lparr>rg_success = True, rg_error = None\<rparr>)))))
       (\<lambda>error.
          return \<lparr>rg_success = False,
                  rg_error = Some (''Failed to register as employee: ''
                                   @ or_else (message error) ''Registration failed'')\<rparr>)"

definition exclusive :: "idb \<Rightarrow> bool" where
  \<comment> \<open>no address is keyed in both stores\<close>
  "exclusive d = (\<forall>a. employers d a = None \<or> employees d a = None)"

section \<open>The route guard\<close>

record NextRequest =
  pathname :: string
  cookies :: "string \<rightharpoonup> string"

datatype NextResponse = Redirect string | Next

definition protectedRoutes :: "string list" where
  "protectedRoutes = [''/employer'', ''/employee'']"

definition authRoutes :: "string list" where
  "authRoutes = [''/auth'', ''/'']"

definition startsWith :: "string \<Rightarrow> string \<Rightarrow> bool" where
  "startsWith str prefix = (take (length prefix) str = prefix)"

definition truthy :: "string option \<Rightarrow> bool" where
  \<comment> \<open>a cookie value in a condition: \<open>undefined\<close> and the empty string are falsy\<close>
  "truthy v = (case v of None \<Rightarrow> False | Some str \<Rightarrow> str \<noteq> [])"

definition middleware :: "NextRequest \<Rightarrow> NextResponse" where
  "middleware request =
     (let path = pathname request;
          authToken = cookies request ''auth-token'';
          userRole = cookies request ''user-role'';
          authPages =
            (if path \<in> set authRoutes \<and> truthy authToken \<and> truthy userRole then
               Redirect (if userRole = Some ''employer'' then ''/employer'' else ''/employee'')
             else Next)
      in if list_ex (\<lambda>route. startsWith path route) protectedRoutes then
           (if \<not> truthy authToken then Redirect ''/auth''
            else if startsWith path ''/employer'' \<and> userRole \<noteq> Some ''employer'' then
              Redirect ''/employee''
            else if startsWith path ''/employee'' \<and> userRole \<noteq> Some ''employee'' then
              Redirect ''/employer''
            else authPages)
         else authPages)"

section \<open>A reference wallet\<close>

text \<open>
  A small wallet on which the theorems below are instantiated: it holds its accounts, the
  chain it is on and the chains it knows, and a user who approves requests or rejects them
  (error 4001). Switching to an unknown chain fails with error 4902.
\<close>

record RefWallet =
  rw_accounts :: "string list"
  rw_chain :: int
  rw_known :: "int list"
  rw_approves :: bool

definition userRejected :: jserr where
  "userRejected = JsError (Some 4001) ''User rejected the request.''"

definition refEthereum :: "RefWallet ethereum" where
  "refEthereum =
     \<lparr>eth_requestAccounts =
        (\<lambda>w. if rw_approves w then (Inr (Some (rw_accounts w)), w) else (Inl userRejected, w)),
      eth_accounts = (\<lambda>w. (Inr (rw_accounts w), w)),
      eth_chainId = (\<lambda>w. (Inr (''0x'' @ toString 16 (rw_chain w)), w)),
      wallet_switchEthereumChain =
        (\<lambda>h w. if \<not> rw_approves w then (Inl userRejected, w)
               else case parseInt16 h of
                      NaN \<Rightarrow> (Inl (JsError (Some (- 32602)) ''Invalid params''), w)
                    | Num c \<Rightarrow>
                        if c \<in> set (rw_known w) then (Inr (), w\<lparr>rw_chain := c\<rparr>)
                        else (Inl (JsError (Some 4902) ''Unrecognized chain ID''), w)),
      wallet_addEthereumChain =
        (\<lambda>p w. if \<not> rw_approves w then (Inl userRejected, w)
               else case parseInt16 (p_chainId p) of
                      NaN \<Rightarrow> (Inl (JsError (Some (- 32602)) ''Invalid params''), w)
                    | Num c \<Rightarrow> (Inr (), w\<lparr>rw_chain := c, rw_known := c # rw_known w\<rparr>)),
      signer_getAddress =
        (\<lambda>w. case rw_accounts w of
               [] \<Rightarrow> (Inl (Error ''unknown account #0''), w)
             | a # _ \<Rightarrow> (Inr a, w))\<rparr>"

definition emptyDb :: idb where
  "emptyDb = \<lparr>employers = Map.empty, employees = Map.empty, faults = []\<rparr>"

definition emptyUser :: UserState where
  "emptyUser = \<lparr>u_address = None, u_role = None, u_isConnected = False,
                 u_isAuthenticated = False, u_employerAddress = None\<rparr>"

definition refWorld :: "string list \<Rightarrow> int \<Rightarrow> idb \<Rightarrow> RefWallet world" where
  \<comment> \<open>a fresh page: a wallet with the given accounts on the given chain, and a database\<close>
  "refWorld accounts chain d =
     \<lparr>wallet = \<lparr>rw_accounts = accounts, rw_chain = chain, rw_known = [1, chain], rw_approves = True\<rparr>,
      db = d, clock = 1700000000000, signer = False, user = emptyUser,
      h_isLoading = False, h_error = None, trace = []\<rparr>"

section \<open>Auxiliary notions\<close>

definition statusOf :: "string \<Rightarrow> NetworkStatus" where
  \<comment> \<open>what \<open>checkNetwork\<close> makes of the answer to \<open>eth_chainId\<close>\<close>
  "statusOf h =
     \<lparr>ns_valid = supported_includes (parseInt16 h), ns_chainId = parseInt16 h,
      ns_name = (case (if supported_includes (parseInt16 h) then supported_lookup (parseInt16 h)
                       else None) of
                   Some details \<Rightarrow> net_name details
                 | None \<Rightarrow> ''Unknown Network'')\<rparr>"

definition roleOf :: "idb \<Rightarrow> string \<Rightarrow> RoleResult" where
  \<comment> \<open>the role two successful lookups find for an address\<close>
  "roleOf d a =
     (case employers d a of
        Some _ \<Rightarrow> \<lparr>rr_role = Some Employer, rr_employerAddress = None\<rparr>
      | None \<Rightarrow>
          (case employees d a of
             Some ee \<Rightarrow> \<lparr>rr_role = Some Employee, rr_employerAddress = Some (ee_employerAddress ee)\<rparr>
           | None \<Rightarrow> \<lparr>rr_role = None, rr_employerAddress = None\<rparr>))"

definition lookupFails :: "string \<Rightarrow> idb \<Rightarrow> bool" where
  \<comment> \<open>one of the lookups that \<open>checkUserRole\<close> performs for the address is going to reject\<close>
  "lookupFails a d =
     (case faults d of
        Some e # _ \<Rightarrow> True
      | None # Some e # _ \<Rightarrow> employers d a = None
      | _ \<Rightarrow> False)"

definition notRegistered :: jserr where
  "notRegistered = Error ''This wallet is not registered. Please register first to access the platform.''"

definition preserves :: "('s \<Rightarrow> 'b) \<Rightarrow> ('a, 's) prog \<Rightarrow> bool" where
  \<comment> \<open>the call leaves a component of the state as it was, however it ends\<close>
  "preserves f m = (\<forall>s. f (snd (m s)) = f s)"

definition storedEmployer :: "int \<Rightarrow> EmployerData \<Rightarrow> EmployerRecord" where
  \<comment> \<open>the record \<open>employerDB.add\<close> stores\<close>
  "storedEmployer now r =
     \<lparr>er_address = ed_address r, er_name = ed_name r, er_registrationDate = now,
      er_lastLogin = ed_lastLogin r\<rparr>"

definition storedEmployee :: "int \<Rightarrow> EmployeeData \<Rightarrow> EmployeeRecord" where
  \<comment> \<open>the record \<open>employeeDB.add\<close> stores\<close>
  "storedEmployee now r =
     \<lparr>ee_address = dd_address r, ee_name = dd_name r, ee_employerAddress = dd_employerAddress r,
      ee_amount = dd_amount r, ee_schedule = dd_schedule r, ee_registrationDate = now,
      ee_lastPaid = dd_lastPaid r, ee_status = Active\<rparr>"

text \<open>
  The route guard as the specification words it, a cookie counting as carried whenever the
  request has one: kept for comparison with \<open>middleware\<close>.
\<close>

definition middleware_claimed :: "NextRequest \<Rightarrow> NextResponse" where
  "middleware_claimed request =
     (let path = pathname request;
          hasToken = (cookies request ''auth-token'' \<noteq> None);
          hasRole = (cookies request ''user-role'' \<noteq> None);
          userRole = cookies request ''user-role''
      in if (startsWith path ''/employer'' \<or> startsWith path ''/employee'') \<and> \<not> hasToken then
           Redirect ''/auth''
         else if startsWith path ''/employer'' \<and> hasToken \<and> userRole \<noteq> Some ''employer'' then
           Redirect ''/employee''
         else if startsWith path ''/employee'' \<and> hasToken \<and> userRole \<noteq> Some ''employee'' then
           Redirect ''/employer''
         else if (path = ''/auth'' \<or> path = ''/'') \<and> hasToken \<and> hasRole then
           Redirect (if userRole = Some ''employer'' then ''/employer'' else ''/employee'')
         else Next)"

definition noAccounts :: jserr where
  "noAccounts = Error ''No accounts found. Please ensure your wallet is unlocked and try again.''"

definition connectionError :: "jserr \<Rightarrow> jserr" where
  \<comment> \<open>what the \<open>catch\<close> of \<open>connectWallet\<close> throws for a caught error\<close>
  "connectionError e =
     (if code e = Some 4001 then
        Error ''You rejected the wallet connection request. Please try again and approve the connection.''
      else if code e = Some (- 32002) then
        Error ''Wallet connection request already pending. Please check your wallet and approve the connection.''
      else e)"

definition reportedStatus :: "jserr + string \<Rightarrow> NetworkStatus" where
  \<comment> \<open>the status \<open>checkNetwork\<close> derives from the outcome of \<open>eth_chainId\<close>\<close>
  "reportedStatus r =
     (case r of
        Inl e \<Rightarrow> \<lparr>ns_valid = False, ns_chainId = Num 0, ns_name = ''Error checking network''\<rparr>
      | Inr h \<Rightarrow> statusOf h)"

definition reportedChain :: "jserr + string \<Rightarrow> number" where
  "reportedChain r = ns_chainId (reportedStatus r)"

definition registered :: "idb \<Rightarrow> string \<Rightarrow> bool" where
  \<comment> \<open>the address is keyed in one of the stores\<close>
  "registered d a = (employers d a \<noteq> None \<or> employees d a \<noteq> None)"

text \<open>
  The step of the login flow an effect belongs to: connecting the wallet (0), validating
  the network (1), resolving the role (2), persisting the authentication state (3),
  redirecting (4).
\<close>

fun phase :: "event \<Rightarrow> nat" where
  "phase EthRequestAccounts = 0"
| "phase EthAccounts = 0"
| "phase SignerGetAddress = 0"
| "phase EthChainId = 1"
| "phase (WalletSwitchEthereumChain h) = 1"
| "phase (WalletAddEthereumChain p) = 1"
| "phase (DbGet st k) = 2"
| "phase (DbAdd st k) = 2"
| "phase (DbPut st k) = 2"
| "phase (SetAddress v) = 3"
| "phase (SetRole v) = 3"
| "phase (SetIsConnected v) = 3"
| "phase (SetIsAuthenticated v) = 3"
| "phase (SetEmployerAddress v) = 3"
| "phase (RouterPush p) = 4"

definition ordered :: "nat \<Rightarrow> nat \<Rightarrow> ('a, 'w world) prog \<Rightarrow> bool" where
  \<comment> \<open>whatever the call does, its effects come in the order of the steps, between two bounds\<close>
  "ordered lo hi m =
     (\<forall>s. \<exists>t. trace (snd (m s)) = trace s @ t \<and> sorted (map phase t)
               \<and> (\<forall>e \<in> set t. lo \<le> phase e \<and> phase e \<le> hi))"

subsection \<open>Sample data\<close>

definition alice :: string where
  "alice = ''0x00000000000000000000000000000000000000A1''"

definition bob :: string where
  "bob = ''0x00000000000000000000000000000000000000b2''"

definition carol :: string where
  "carol = ''0x00000000000000000000000000000000000000c3''"

definition demoDb :: idb where
  \<comment> \<open>alice is an employer, bob her employee, carol is not registered\<close>
  "demoDb =
     \<lparr>employers = [alice \<mapsto> \<lparr>er_address = alice, er_name = Some ''Acme'',
                               er_registrationDate = 1600000000000, er_lastLogin = None\<rparr>],
      employees = [bob \<mapsto> \<lparr>ee_address = bob, ee_name = ''Bob'', ee_employerAddress = alice,
                             ee_amount = ''100'', ee_schedule = ''monthly'',
                             ee_registrationDate = 1600000000001, ee_lastPaid = None,
                             ee_status = Active\<rparr>],
      faults = []\<rparr>"

definition faultyDb :: idb where
  \<comment> \<open>the same stores, with the next request about to reject\<close>
  "faultyDb = demoDb\<lparr>faults := [Some (JsError (Some 0) ''The transaction was aborted.'')]\<rparr>"

definition carolEmployer :: EmployerData where
  "carolEmployer = \<lparr>ed_address = carol, ed_name = Some ''Carol and Co'', ed_lastLogin = None\<rparr>"

definition carolEmployee :: EmployeeData where
  "carolEmployee = \<lparr>dd_address = carol, dd_name = ''Carol'', dd_employerAddress = alice,
                     dd_amount = ''250'', dd_schedule = ''weekly'', dd_lastPaid = None\<rparr>"

definition brokenSigner :: "RefWallet ethereum" where
  \<comment> \<open>the reference wallet behind a signer whose address lookup fails\<close>
  "brokenSigner = refEthereum\<lparr>signer_getAddress := (\<lambda>w. (Inl (Error ''unknown account #0''), w))\<rparr>"

definition busyWallet :: "jserr \<Rightarrow> RefWallet ethereum" where
  \<comment> \<open>the reference wallet answering the account request with an error\<close>
  "busyWallet e = refEthereum\<lparr>eth_requestAccounts := (\<lambda>w. (Inl e, w))\<rparr>"

definition polygonParams :: AddChainParams where
  "polygonParams = \<lparr>p_chainId = ''0x89'', p_chainName = ''Polygon Mainnet'',
      p_nativeCurrency = \<lparr>cur_name = ''MATIC'', cur_symbol = ''MATIC'', cur_decimals = 18\<rparr>,
      p_rpcUrls = [''https://polygon-rpc.com''],
      p_blockExplorerUrls = [''https://polygonscan.com'']\<rparr>"

definition rejecting :: "RefWallet world \<Rightarrow> RefWallet world" where
  \<comment> \<open>the same page with a user who rejects every request\<close>
  "rejecting s = s\<lparr>wallet := (wallet s)\<lparr>rw_approves := False\<rparr>\<rparr>"

definition isHexAddress :: "string \<Rightarrow> bool" where
  "isHexAddress a =
     (length a = 42 \<and> take 2 a = ''0x'' \<and> list_all (\<lambda>c. hexDigitVal c \<noteq> None) (drop 2 a))"

definition sampleGetAddress :: "string \<Rightarrow> string option" where
  \<comment> \<open>a stand-in for the library function on sample data: it accepts the 0x-prefixed
      hexadecimal addresses and normalises their letter case\<close>
  "sampleGetAddress a = (if isHexAddress a then Some (toLowerCase a) else None)"

definition pinnedSigner :: "string \<Rightarrow> RefWallet ethereum" where
  \<comment> \<open>the reference wallet behind a signer with a fixed address\<close>
  "pinnedSigner a = refEthereum\<lparr>signer_getAddress := (\<lambda>w. (Inr a, w))\<rparr>"

definition aliceLower :: string where
  "aliceLower = ''0x00000000000000000000000000000000000000a1''"

definition bobData :: EmployeeRegistrationData where
  "bobData = \<lparr>rd_name = ''Bob'', rd_address = bob, rd_amount = ''100'', rd_schedule = ''monthly''\<rparr>"

section \<open>Running asynchronous calls\<close>

lemma await_Inr: "m s = (Inr x, s') \<Longrightarrow> await m f s = f x s'"
  by (simp add: await_def)

lemma await_Inl: "m s = (Inl e, s') \<Longrightarrow> await m f s = (Inl e, s')"
  by (simp add: await_def)

lemma try_catch_Inr: "m s = (Inr x, s') \<Longrightarrow> try_catch m h s = (Inr x, s')"
  by (simp add: try_catch_def)

lemma try_catch_Inl: "m s = (Inl e, s') \<Longrightarrow> try_catch m h s = h e s'"
  by (simp add: try_catch_def)

lemma rpc_eq:
  "call (wallet s) = (r, w') \<Longrightarrow> rpc ev call s = (r, s\<lparr>wallet := w', trace := trace s @ [ev]\<rparr>)"
  by (simp add: rpc_def)

lemma try_catch_total: "\<exists>r. fst (try_catch m (\<lambda>error. return v) s) = Inr r"
  by (cases "m s") (auto simp: try_catch_def return_def split: sum.split)

subsection \<open>Components of the state that a call leaves alone\<close>

lemma preservesD: "preserves f m \<Longrightarrow> m s = (r, s') \<Longrightarrow> f s' = f s"
  by (auto simp: preserves_def dest: spec [of _ s])

lemma preserves_return: "preserves f (return x)"
  by (simp add: preserves_def return_def)

lemma preserves_throw: "preserves f (throw e)"
  by (simp add: preserves_def throw_def)

lemma preserves_await:
  assumes "preserves f m" and "\<And>x. preserves f (g x)"
  shows "preserves f (await m g)"
  unfolding preserves_def
proof
  fix s
  obtain r s1 where m: "m s = (r, s1)" by (cases "m s")
  have f1: "f s1 = f s" using preservesD [OF assms(1) m] .
  show "f (snd (await m g s)) = f s"
  proof (cases r)
    case (Inl e)
    then show ?thesis using m f1 by (simp add: await_def)
  next
    case (Inr x)
    obtain r2 s2 where g: "g x s1 = (r2, s2)" by (cases "g x s1")
    have "f s2 = f s1" using preservesD [OF assms(2) g] .
    then show ?thesis using m f1 Inr g by (simp add: await_def)
  qed
qed

lemma preserves_try_catch:
  assumes "preserves f m" and "\<And>e. preserves f (h e)"
  shows "preserves f (try_catch m h)"
  unfolding preserves_def
proof
  fix s
  obtain r s1 where m: "m s = (r, s1)" by (cases "m s")
  have f1: "f s1 = f s" using preservesD [OF assms(1) m] .
  show "f (snd (try_catch m h s)) = f s"
  proof (cases r)
    case (Inr x)
    then show ?thesis using m f1 by (simp add: try_catch_def)
  next
    case (Inl e)
    obtain r2 s2 where g: "h e s1 = (r2, s2)" by (cases "h e s1")
    have "f s2 = f s1" using preservesD [OF assms(2) g] .
    then show ?thesis using m f1 Inl g by (simp add: try_catch_def)
  qed
qed

lemma preserves_if:
  "preserves f a \<Longrightarrow> preserves f b \<Longrightarrow> preserves f (if c then a else b)"
  by simp

lemma preserves_case_option:
  "preserves f a \<Longrightarrow> (\<And>y. preserves f (b y)) \<Longrightarrow>
   preserves f (case x of None \<Rightarrow> a | Some y \<Rightarrow> b y)"
  by (cases x) simp_all

lemma preserves_case_list:
  "preserves f a \<Longrightarrow> (\<And>y ys. preserves f (b y ys)) \<Longrightarrow>
   preserves f (case x of [] \<Rightarrow> a | y # ys \<Rightarrow> b y ys)"
  by (cases x) simp_all

lemma preserves_rpc:
  "(\<And>s w t. f (s\<lparr>wallet := w, trace := t\<rparr>) = f s) \<Longrightarrow> preserves f (rpc ev call)"
  by (simp add: preserves_def rpc_def split: prod.split)

lemma preserves_modify: "(\<And>s. f (g s) = f s) \<Longrightarrow> preserves f (modify g)"
  by (simp add: preserves_def modify_def)

lemmas preserves_intros =
  preserves_return preserves_throw preserves_await preserves_try_catch preserves_if
  preserves_case_option preserves_case_list

subsection \<open>Requests to the object database\<close>

lemma idb_request_healthy:
  "faults (db s) = [] \<Longrightarrow> op (db s) = (r, d') \<Longrightarrow>
   idb_request ev op s = (r, s\<lparr>trace := trace s @ [ev], db := d'\<rparr>)"
  by (simp add: idb_request_def Let_def)

lemma idb_request_fault:
  "faults (db s) = Some e # fs \<Longrightarrow>
   idb_request ev op s = (Inl e, s\<lparr>trace := trace s @ [ev], db := (db s)\<lparr>faults := fs\<rparr>\<rparr>)"
  by (simp add: idb_request_def Let_def)

lemma employerDB_get_healthy:
  "faults (db s) = [] \<Longrightarrow>
   employerDB_get a s = (Inr (employers (db s) a), s\<lparr>trace := trace s @ [DbGet EmployersStore a]\<rparr>)"
  by (simp add: employerDB_get_def idb_request_def Let_def)

lemma employeeDB_get_healthy:
  "faults (db s) = [] \<Longrightarrow>
   employeeDB_get a s = (Inr (employees (db s) a), s\<lparr>trace := trace s @ [DbGet EmployeesStore a]\<rparr>)"
  by (simp add: employeeDB_get_def idb_request_def Let_def)

subsection \<open>The reference wallet and the sample data\<close>

lemma names_distinct:
  "alice \<noteq> bob" "alice \<noteq> carol" "bob \<noteq> carol" "bob \<noteq> alice" "carol \<noteq> alice" "carol \<noteq> bob"
  "alice \<noteq> []" "bob \<noteq> []" "carol \<noteq> []"
  by (simp_all add: alice_def bob_def carol_def)

lemma ref_ops:
  "eth_requestAccounts refEthereum w =
     (if rw_approves w then (Inr (Some (rw_accounts w)), w) else (Inl userRejected, w))"
  "eth_accounts refEthereum w = (Inr (rw_accounts w), w)"
  "signer_getAddress refEthereum w =
     (case rw_accounts w of [] \<Rightarrow> (Inl (Error ''unknown account #0''), w) | a # _ \<Rightarrow> (Inr a, w))"
  by (simp_all add: refEthereum_def)

lemma ref_chainId: "eth_chainId refEthereum w = (Inr (''0x'' @ toString 16 (rw_chain w)), w)"
  by (simp add: refEthereum_def)

lemma toString_16_50002: "toString 16 50002 = ''c352''"
  by (simp add: toString_def digitChar_def)

lemma parseInt16_c352: "parseInt16 ''0xc352'' = Num 50002"
  by (simp add: parseInt16_def isWhiteSpace_def hexDigitVal_def hexVal_def Let_def)

section \<open>Network validation\<close>

lemma checkNetwork_reported:
  "eth_chainId eth (wallet s) = (Inr h, w') \<Longrightarrow>
   checkNetwork (Some eth) s = (Inr (statusOf h), s\<lparr>wallet := w', trace := trace s @ [EthChainId]\<rparr>)"
  by (simp add: checkNetwork_def try_catch_def await_def rpc_def return_def statusOf_def Let_def)

lemma checkNetwork_failed:
  "eth_chainId eth (wallet s) = (Inl e, w') \<Longrightarrow>
   checkNetwork (Some eth) s =
     (Inr \<lparr>ns_valid = False, ns_chainId = Num 0, ns_name = ''Error checking network''\<rparr>,
      s\<lparr>wallet := w', trace := trace s @ [EthChainId]\<rparr>)"
  by (simp add: checkNetwork_def try_catch_def await_def rpc_def return_def)

lemma checkNetwork_no_wallet:
  "checkNetwork None s =
     (Inr \<lparr>ns_valid = False, ns_chainId = Num 0, ns_name = ''No wallet detected''\<rparr>, s)"
  by (simp add: checkNetwork_def return_def)

lemma supported_includes_iff:
  "supported_includes n \<longleftrightarrow> (\<exists>c \<in> {1, 5, 11155111, 137, 80001, 50002}. n = Num c)"
  by (cases n) (auto simp: supported_includes_def SUPPORTED_NETWORKS_def)

lemma supported_lookup_Some:
  "supported_includes n \<Longrightarrow>
   \<exists>c d. n = Num c \<and> map_of SUPPORTED_NETWORKS c = Some d \<and> supported_lookup n = Some d"
  by (cases n) (auto simp: supported_includes_def supported_lookup_def SUPPORTED_NETWORKS_def)

lemma checkNetwork_returns: "\<exists>st s'. checkNetwork ethereum s = (Inr st, s')"
proof (cases ethereum)
  case None
  then show ?thesis by (simp add: checkNetwork_no_wallet)
next
  case (Some eth)
  obtain r w' where c: "eth_chainId eth (wallet s) = (r, w')" by (cases "eth_chainId eth (wallet s)")
  show ?thesis
  proof (cases r)
    case (Inl e)
    with c Some show ?thesis by (simp add: checkNetwork_failed)
  next
    case (Inr h)
    with c Some show ?thesis by (simp add: checkNetwork_reported)
  qed
qed

lemma await_checkNetwork_return:
  "await (checkNetwork ethereum) (\<lambda>networkStatus. return a)
     = (\<lambda>s. (Inr a, snd (checkNetwork ethereum s)))"
proof
  fix s
  obtain st s' where "checkNetwork ethereum s = (Inr st, s')"
    using checkNetwork_returns by blast
  then show "await (checkNetwork ethereum) (\<lambda>networkStatus. return a) s
             = (Inr a, snd (checkNetwork ethereum s))"
    by (simp add: await_def return_def)
qed

lemma ref_checkNetwork:
  "checkNetwork (Some refEthereum) s =
     (Inr (statusOf (''0x'' @ toString 16 (rw_chain (wallet s)))), s\<lparr>trace := trace s @ [EthChainId]\<rparr>)"
  using checkNetwork_reported [OF ref_chainId, of s] by simp

lemma statusOf_c352:
  "statusOf ''0xc352'' = \<lparr>ns_valid = True, ns_chainId = Num 50002, ns_name = ''PHAROS''\<rparr>"
  by (simp add: statusOf_def parseInt16_c352 supported_includes_def supported_lookup_def
        SUPPORTED_NETWORKS_def)

lemma checkNetwork_preserves_db: "preserves db (checkNetwork ethereum)"
  unfolding checkNetwork_def Let_def
  by (intro preserves_intros preserves_rpc) simp

text \<open>
  C2. Whatever chain identifier the wallet reports, \<open>checkNetwork\<close> returns it parsed,
  with \<open>valid\<close> true exactly when it is one of 1, 5, 11155111, 137, 80001 and 50002; a
  valid answer carries the name that \<open>SUPPORTED_NETWORKS\<close> records for that chain, an
  invalid one the name \<open>Unknown Network\<close>.
\<close>

theorem checkNetwork_allow_list:
  assumes "eth_chainId eth (wallet s) = (Inr h, w')"
  shows "\<exists>st. fst (checkNetwork (Some eth) s) = Inr st
           \<and> ns_chainId st = parseInt16 h
           \<and> (ns_valid st \<longleftrightarrow> (\<exists>c \<in> {1, 5, 11155111, 137, 80001, 50002}. parseInt16 h = Num c))
           \<and> (ns_valid st \<longrightarrow> (\<exists>c d. parseInt16 h = Num c \<and> map_of SUPPORTED_NETWORKS c = Some d
                                       \<and> ns_name st = net_name d))
           \<and> (\<not> ns_valid st \<longrightarrow> ns_name st = ''Unknown Network'')"
proof -
  have run: "fst (checkNetwork (Some eth) s) = Inr (statusOf h)"
    using checkNetwork_reported [OF assms] by simp
  have v: "ns_valid (statusOf h) \<longleftrightarrow>
           (\<exists>c \<in> {1, 5, 11155111, 137, 80001, 50002}. parseInt16 h = Num c)"
    by (simp add: statusOf_def supported_includes_iff)
  have n: "ns_valid (statusOf h) \<longrightarrow>
           (\<exists>c d. parseInt16 h = Num c \<and> map_of SUPPORTED_NETWORKS c = Some d
                  \<and> ns_name (statusOf h) = net_name d)"
    using supported_lookup_Some [of "parseInt16 h"] by (auto simp: statusOf_def)
  have u: "\<not> ns_valid (statusOf h) \<longrightarrow> ns_name (statusOf h) = ''Unknown Network''"
    by (simp add: statusOf_def)
  have c: "ns_chainId (statusOf h) = parseInt16 h"
    by (simp add: statusOf_def)
  from run v n u c show ?thesis by blast
qed

theorem checkNetwork_allow_list_witness:
  "\<exists>st. fst (checkNetwork (Some refEthereum) (refWorld [''0xA''] 50002 emptyDb)) = Inr st
       \<and> ns_chainId st = Num 50002 \<and> ns_valid st \<and> ns_name st = ''PHAROS''"
proof -
  have h: "eth_chainId refEthereum (wallet (refWorld [''0xA''] 50002 emptyDb))
           = (Inr ''0xc352'', wallet (refWorld [''0xA''] 50002 emptyDb))"
    by (simp add: ref_chainId refWorld_def toString_16_50002)
  from checkNetwork_allow_list [OF h]
  show ?thesis
    by (auto simp: parseInt16_c352 SUPPORTED_NETWORKS_def)
qed

section \<open>Switching networks\<close>

lemma checkNetwork_eq:
  "eth_chainId eth (wallet s) = (r, w') \<Longrightarrow>
   checkNetwork (Some eth) s = (Inr (reportedStatus r), s\<lparr>wallet := w', trace := trace s @ [EthChainId]\<rparr>)"
  by (cases r) (simp_all add: checkNetwork_reported checkNetwork_failed reportedStatus_def)

lemma strict_eq_Num: "strict_eq n (Num c) \<longleftrightarrow> n = Num c"
  by (cases n) (simp_all add: strict_eq_def)

lemma reportedChain_Inr: "reportedChain (Inr h) = parseInt16 h"
  by (simp add: reportedChain_def reportedStatus_def statusOf_def)

lemma switchNetwork_already:
  assumes "eth_chainId eth (wallet s) = (r1, w1)" and "reportedChain r1 = Num c"
  shows "switchNetwork (Some eth) c s = (Inr True, s\<lparr>wallet := w1, trace := trace s @ [EthChainId]\<rparr>)"
  using assms
  by (simp add: switchNetwork_def try_catch_def await_def return_def checkNetwork_eq strict_eq_Num
        reportedChain_def)

lemma switchNetwork_switched:
  assumes "eth_chainId eth (wallet s) = (r1, w1)" and "reportedChain r1 \<noteq> Num c"
    and "wallet_switchEthereumChain eth (''0x'' @ toString 16 c) w1 = (Inr (), w2)"
    and "eth_chainId eth w2 = (r2, w3)"
  shows "switchNetwork (Some eth) c s =
     (Inr (reportedChain r2 = Num c),
      s\<lparr>wallet := w3,
        trace := trace s @ [EthChainId, WalletSwitchEthereumChain (''0x'' @ toString 16 c), EthChainId]\<rparr>)"
  using assms
  by (simp add: switchNetwork_def try_catch_def await_def return_def checkNetwork_eq strict_eq_Num
        reportedChain_def rpc_def)

lemma switchNetwork_added:
  assumes "eth_chainId eth (wallet s) = (r1, w1)" and "reportedChain r1 \<noteq> Num c"
    and "wallet_switchEthereumChain eth (''0x'' @ toString 16 c) w1 = (Inl e, w2)"
    and "code e = Some 4902"
    and "map_of SUPPORTED_NETWORKS c = Some d"
    and "wallet_addEthereumChain eth
           \<lparr>p_chainId = ''0x'' @ toString 16 c, p_chainName = net_name d,
            p_nativeCurrency = nativeCurrency d, p_rpcUrls = rpcUrls d,
            p_blockExplorerUrls = blockExplorerUrls d\<rparr> w2 = (ra, w3)"
    and "eth_chainId eth w3 = (r3, w4)"
  shows "switchNetwork (Some eth) c s =
     (case ra of
        Inr _ \<Rightarrow>
          (Inr (reportedChain r3 = Num c),
           s\<lparr>wallet := w4,
             trace := trace s @
               [EthChainId, WalletSwitchEthereumChain (''0x'' @ toString 16 c),
                WalletAddEthereumChain
                  \<lparr>p_chainId = ''0x'' @ toString 16 c, p_chainName = net_name d,
                   p_nativeCurrency = nativeCurrency d, p_rpcUrls = rpcUrls d,
                   p_blockExplorerUrls = blockExplorerUrls d\<rparr>,
                EthChainId]\<rparr>)
      | Inl e2 \<Rightarrow>
          (Inl (Error (''Failed to add network: '' @ or_else (message e2) ''Unknown error''
                       @ ''. Please try adding the network manually in your wallet.'')),
           s\<lparr>wallet := w3,
             trace := trace s @
               [EthChainId, WalletSwitchEthereumChain (''0x'' @ toString 16 c),
                WalletAddEthereumChain
                  \<lparr>p_chainId = ''0x'' @ toString 16 c, p_chainName = net_name d,
                   p_nativeCurrency = nativeCurrency d, p_rpcUrls = rpcUrls d,
                   p_blockExplorerUrls = blockExplorerUrls d\<rparr>]\<rparr>))"
  using assms
  by (simp add: switchNetwork_def try_catch_def await_def return_def throw_def checkNetwork_eq
        strict_eq_Num reportedChain_def rpc_def supported_lookup_def Let_def split: sum.split)

lemma switchNetwork_unlisted:
  assumes "eth_chainId eth (wallet s) = (r1, w1)" and "reportedChain r1 \<noteq> Num c"
    and "wallet_switchEthereumChain eth (''0x'' @ toString 16 c) w1 = (Inl e, w2)"
    and "code e = Some 4902"
    and "map_of SUPPORTED_NETWORKS c = None"
  shows "switchNetwork (Some eth) c s =
     (Inl (Error (''Failed to add network: Network with chainId '' @ toString 10 c
                  @ '' is not supported. Please contact support.''
                  @ ''. Please try adding the network manually in your wallet.'')),
      s\<lparr>wallet := w2,
        trace := trace s @ [EthChainId, WalletSwitchEthereumChain (''0x'' @ toString 16 c)]\<rparr>)"
  using assms
  by (simp add: switchNetwork_def try_catch_def await_def return_def throw_def checkNetwork_eq
        strict_eq_Num reportedChain_def rpc_def supported_lookup_def Error_def or_else_def)

lemma switchNetwork_rejected:
  assumes "eth_chainId eth (wallet s) = (r1, w1)" and "reportedChain r1 \<noteq> Num c"
    and "wallet_switchEthereumChain eth (''0x'' @ toString 16 c) w1 = (Inl e, w2)"
    and "code e = Some 4001"
  shows "switchNetwork (Some eth) c s =
     (Inl (Error ''You rejected the network switch request. Please approve the network switch to continue.''),
      s\<lparr>wallet := w2,
        trace := trace s @ [EthChainId, WalletSwitchEthereumChain (''0x'' @ toString 16 c)]\<rparr>)"
  using assms
  by (simp add: switchNetwork_def try_catch_def await_def return_def throw_def checkNetwork_eq
        strict_eq_Num reportedChain_def rpc_def)

lemma hex_values:
  "toString 16 1 = ''1''" "toString 16 137 = ''89''" "toString 16 77 = ''4d''" "toString 10 77 = ''77''"
  by (simp_all add: toString_def digitChar_def)

lemma parse_values:
  "parseInt16 ''0x1'' = Num 1" "parseInt16 ''0x89'' = Num 137" "parseInt16 ''0x4d'' = Num 77"
  by (simp_all add: parseInt16_def isWhiteSpace_def hexDigitVal_def hexVal_def Let_def)

lemma ref_switch:
  "wallet_switchEthereumChain refEthereum h w =
     (if \<not> rw_approves w then (Inl userRejected, w)
      else case parseInt16 h of
             NaN \<Rightarrow> (Inl (JsError (Some (- 32602)) ''Invalid params''), w)
           | Num c \<Rightarrow>
               if c \<in> set (rw_known w) then (Inr (), w\<lparr>rw_chain := c\<rparr>)
               else (Inl (JsError (Some 4902) ''Unrecognized chain ID''), w))"
  "wallet_addEthereumChain refEthereum p w =
     (if \<not> rw_approves w then (Inl userRejected, w)
      else case parseInt16 (p_chainId p) of
             NaN \<Rightarrow> (Inl (JsError (Some (- 32602)) ''Invalid params''), w)
           | Num c \<Rightarrow> (Inr (), w\<lparr>rw_chain := c, rw_known := c # rw_known w\<rparr>))"
  by (simp_all add: refEthereum_def)

lemma ref_world_wallet:
  "wallet (refWorld accounts chain d) =
     \<lparr>rw_accounts = accounts, rw_chain = chain, rw_known = [1, chain], rw_approves = True\<rparr>"
  "trace (refWorld accounts chain d) = []"
  by (simp_all add: refWorld_def)

lemma trace_rejecting: "trace (rejecting s) = trace s"
  by (simp add: rejecting_def)

text \<open>
  C5. \<open>switchNetwork\<close> returns true, after the one \<open>eth_chainId\<close> request and nothing
  else, when the wallet is already on the requested chain. Otherwise it requests
  \<open>wallet_switchEthereumChain\<close> and returns whether the chain reported afterwards is the
  requested one. When that request fails with code 4902 it requests
  \<open>wallet_addEthereumChain\<close> with the parameters \<open>SUPPORTED_NETWORKS\<close> records for the
  chain, and throws without that request when the chain is not recorded there; when it
  fails with code 4001 it throws the error that tells the user they rejected the switch.
\<close>

theorem switchNetwork_outcomes:
  "(\<forall>h w1. eth_chainId eth (wallet s) = (Inr h, w1) \<and> parseInt16 h = Num c \<longrightarrow>
      switchNetwork (Some eth) c s = (Inr True, s\<lparr>wallet := w1, trace := trace s @ [EthChainId]\<rparr>))
   \<and> (\<forall>r1 w1 w2 r2 w3.
        eth_chainId eth (wallet s) = (r1, w1) \<and> reportedChain r1 \<noteq> Num c
        \<and> wallet_switchEthereumChain eth (''0x'' @ toString 16 c) w1 = (Inr (), w2)
        \<and> eth_chainId eth w2 = (r2, w3) \<longrightarrow>
      switchNetwork (Some eth) c s =
        (Inr (reportedChain r2 = Num c),
         s\<lparr>wallet := w3,
           trace := trace s @ [EthChainId, WalletSwitchEthereumChain (''0x'' @ toString 16 c),
                               EthChainId]\<rparr>))
   \<and> (\<forall>r1 w1 e w2 d w3 r3 w4.
        eth_chainId eth (wallet s) = (r1, w1) \<and> reportedChain r1 \<noteq> Num c
        \<and> wallet_switchEthereumChain eth (''0x'' @ toString 16 c) w1 = (Inl e, w2)
        \<and> code e = Some 4902 \<and> map_of SUPPORTED_NETWORKS c = Some d
        \<and> wallet_addEthereumChain eth
             \<lparr>p_chainId = ''0x'' @ toString 16 c, p_chainName = net_name d,
              p_nativeCurrency = nativeCurrency d, p_rpcUrls = rpcUrls d,
              p_blockExplorerUrls = blockExplorerUrls d\<rparr> w2 = (Inr (), w3)
        \<and> eth_chainId eth w3 = (r3, w4) \<longrightarrow>
      switchNetwork (Some eth) c s =
        (Inr (reportedChain r3 = Num c),
         s\<lparr>wallet := w4,
           trace := trace s @
             [EthChainId, WalletSwitchEthereumChain (''0x'' @ toString 16 c),
              WalletAddEthereumChain
                \<lparr>p_chainId = ''0x'' @ toString 16 c, p_chainName = net_name d,
                 p_nativeCurrency = nativeCurrency d, p_rpcUrls = rpcUrls d,
                 p_blockExplorerUrls = blockExplorerUrls d\<rparr>,
              EthChainId]\<rparr>))
   \<and> (\<forall>r1 w1 e w2.
        eth_chainId eth (wallet s) = (r1, w1) \<and> reportedChain r1 \<noteq> Num c
        \<and> wallet_switchEthereumChain eth (''0x'' @ toString 16 c) w1 = (Inl e, w2)
        \<and> code e = Some 4902 \<and> map_of SUPPORTED_NETWORKS c = None \<longrightarrow>
      switchNetwork (Some eth) c s =
        (Inl (Error (''Failed to add network: Network with chainId '' @ toString 10 c
                     @ '' is not supported. Please contact support.''
                     @ ''. Please try adding the network manually in your wallet.'')),
         s\<lparr>wallet := w2,
           trace := trace s @ [EthChainId, WalletSwitchEthereumChain (''0x'' @ toString 16 c)]\<rparr>))
   \<and> (\<forall>r1 w1 e w2.
        eth_chainId eth (wallet s) = (r1, w1) \<and> reportedChain r1 \<noteq> Num c
        \<and> wallet_switchEthereumChain eth (''0x'' @ toString 16 c) w1 = (Inl e, w2)
        \<and> code e = Some 4001 \<longrightarrow>
      switchNetwork (Some eth) c s =
        (Inl (Error ''You rejected the network switch request. Please approve the network switch to continue.''),
         s\<lparr>wallet := w2,
           trace := trace s @ [EthChainId, WalletSwitchEthereumChain (''0x'' @ toString 16 c)]\<rparr>))"
proof (intro conjI allI impI)
  fix h w1
  assume "eth_chainId eth (wallet s) = (Inr h, w1) \<and> parseInt16 h = Num c"
  then show "switchNetwork (Some eth) c s =
      (Inr True, s\<lparr>wallet := w1, trace := trace s @ [EthChainId]\<rparr>)"
    using switchNetwork_already [of eth s "Inr h" w1 c] by (simp add: reportedChain_Inr)
next
  fix r1 w1 w2 r2 w3
  assume "eth_chainId eth (wallet s) = (r1, w1) \<and> reportedChain r1 \<noteq> Num c
        \<and> wallet_switchEthereumChain eth (''0x'' @ toString 16 c) w1 = (Inr (), w2)
        \<and> eth_chainId eth w2 = (r2, w3)"
  then show "switchNetwork (Some eth) c s =
        (Inr (reportedChain r2 = Num c),
         s\<lparr>wallet := w3,
           trace := trace s @ [EthChainId, WalletSwitchEthereumChain (''0x'' @ toString 16 c),
                               EthChainId]\<rparr>)"
    using switchNetwork_switched [of eth s r1 w1 c w2 r2 w3] by simp
next
  fix r1 w1 e w2 d w3 r3 w4
  assume "eth_chainId eth (wallet s) = (r1, w1) \<and> reportedChain r1 \<noteq> Num c
        \<and> wallet_switchEthereumChain eth (''0x'' @ toString 16 c) w1 = (Inl e, w2)
        \<and> code e = Some 4902 \<and> map_of SUPPORTED_NETWORKS c = Some d
        \<and> wallet_addEthereumChain eth
             \<lparr>p_chainId = ''0x'' @ toString 16 c, p_chainName = net_name d,
              p_nativeCurrency = nativeCurrency d, p_rpcUrls = rpcUrls d,
              p_blockExplorerUrls = blockExplorerUrls d\<rparr> w2 = (Inr (), w3)
        \<and> eth_chainId eth w3 = (r3, w4)"
  then show "switchNetwork (Some eth) c s =
        (Inr (reportedChain r3 = Num c),
         s\<lparr>wallet := w4,
           trace := trace s @
             [EthChainId, WalletSwitchEthereumChain (''0x'' @ toString 16 c),
              WalletAddEthereumChain
                \<lparr>p_chainId = ''0x'' @ toString 16 c, p_chainName = net_name d,
                 p_nativeCurrency = nativeCurrency d, p_rpcUrls = rpcUrls d,
                 p_blockExplorerUrls = blockExplorerUrls d\<rparr>,
              EthChainId]\<rparr>)"
    using switchNetwork_added [of eth s r1 w1 c e w2 d "Inr ()" w3 r3 w4] by simp
next
  fix r1 w1 e w2
  assume "eth_chainId eth (wallet s) = (r1, w1) \<and> reportedChain r1 \<noteq> Num c
        \<and> wallet_switchEthereumChain eth (''0x'' @ toString 16 c) w1 = (Inl e, w2)
        \<and> code e = Some 4902 \<and> map_of SUPPORTED_NETWORKS c = None"
  then show "switchNetwork (Some eth) c s =
        (Inl (Error (''Failed to add network: Network with chainId '' @ toString 10 c
                     @ '' is not supported. Please contact support.''
                     @ ''. Please try adding the network manually in your wallet.'')),
         s\<lparr>wallet := w2,
           trace := trace s @ [EthChainId, WalletSwitchEthereumChain (''0x'' @ toString 16 c)]\<rparr>)"
    using switchNetwork_unlisted [of eth s r1 w1 c e w2] by simp
next
  fix r1 w1 e w2
  assume "eth_chainId eth (wallet s) = (r1, w1) \<and> reportedChain r1 \<noteq> Num c
        \<and> wallet_switchEthereumChain eth (''0x'' @ toString 16 c) w1 = (Inl e, w2)
        \<and> code e = Some 4001"
  then show "switchNetwork (Some eth) c s =
        (Inl (Error ''You rejected the network switch request. Please approve the network switch to continue.''),
         s\<lparr>wallet := w2,
           trace := trace s @ [EthChainId, WalletSwitchEthereumChain (''0x'' @ toString 16 c)]\<rparr>)"
    using switchNetwork_rejected [of eth s r1 w1 c e w2] by simp
qed

theorem switchNetwork_outcomes_witness:
  "switchNetwork (Some refEthereum) 50002 (refWorld [alice] 50002 emptyDb)
     = (Inr True, (refWorld [alice] 50002 emptyDb)\<lparr>trace := [EthChainId]\<rparr>)
   \<and> fst (switchNetwork (Some refEthereum) 1 (refWorld [alice] 50002 emptyDb)) = Inr True
   \<and> trace (snd (switchNetwork (Some refEthereum) 1 (refWorld [alice] 50002 emptyDb)))
       = [EthChainId, WalletSwitchEthereumChain ''0x1'', EthChainId]
   \<and> fst (switchNetwork (Some refEthereum) 137 (refWorld [alice] 50002 emptyDb)) = Inr True
   \<and> trace (snd (switchNetwork (Some refEthereum) 137 (refWorld [alice] 50002 emptyDb)))
       = [EthChainId, WalletSwitchEthereumChain ''0x89'', WalletAddEthereumChain polygonParams,
          EthChainId]
   \<and> fst (switchNetwork (Some refEthereum) 77 (refWorld [alice] 50002 emptyDb))
       = Inl (Error ''Failed to add network: Network with chainId 77 is not supported. Please contact support.. Please try adding the network manually in your wallet.'')
   \<and> fst (switchNetwork (Some refEthereum) 1 (rejecting (refWorld [alice] 50002 emptyDb)))
       = Inl (Error ''You rejected the network switch request. Please approve the network switch to continue.'')
   \<and> trace (snd (switchNetwork (Some refEthereum) 1 (rejecting (refWorld [alice] 50002 emptyDb))))
       = [EthChainId, WalletSwitchEthereumChain ''0x1'']"
proof -
  let ?s = "refWorld [alice] 50002 emptyDb"
  let ?w = "wallet ?s"
  let ?c = "Inr ''0xc352'' :: jserr + string"
  have cur: "eth_chainId refEthereum ?w = (?c, ?w)"
    by (simp add: ref_chainId ref_world_wallet toString_16_50002)
  have ne: "reportedChain ?c \<noteq> Num 1" "reportedChain ?c \<noteq> Num 137" "reportedChain ?c \<noteq> Num 77"
    by (simp_all add: reportedChain_Inr parseInt16_c352)
  have 1: "switchNetwork (Some refEthereum) 50002 ?s
           = (Inr True, ?s\<lparr>wallet := ?w, trace := trace ?s @ [EthChainId]\<rparr>)"
    using switchNetwork_outcomes [of refEthereum ?s 50002] cur parseInt16_c352 by simp
  have sw1: "wallet_switchEthereumChain refEthereum (''0x'' @ toString 16 1) ?w
             = (Inr (), ?w\<lparr>rw_chain := 1\<rparr>)"
    by (simp add: ref_switch ref_world_wallet hex_values parse_values)
  have c1: "eth_chainId refEthereum (?w\<lparr>rw_chain := 1\<rparr>) = (Inr ''0x1'', ?w\<lparr>rw_chain := 1\<rparr>)"
    by (simp add: ref_chainId ref_world_wallet hex_values)
  have 2: "switchNetwork (Some refEthereum) 1 ?s
           = (Inr (reportedChain (Inr ''0x1'') = Num 1),
              ?s\<lparr>wallet := ?w\<lparr>rw_chain := 1\<rparr>,
                 trace := trace ?s @ [EthChainId, WalletSwitchEthereumChain (''0x'' @ toString 16 1),
                                      EthChainId]\<rparr>)"
    using switchNetwork_outcomes [of refEthereum ?s 1] cur ne(1) sw1 c1 by simp
  let ?e = "JsError (Some 4902) ''Unrecognized chain ID''"
  let ?d = "\<lparr>net_name = ''Polygon Mainnet'',
          nativeCurrency = \<lparr>cur_name = ''MATIC'', cur_symbol = ''MATIC'', cur_decimals = 18\<rparr>,
          rpcUrls = [''https://polygon-rpc.com''],
          blockExplorerUrls = [''https://polygonscan.com'']\<rparr>"
  let ?p = "\<lparr>p_chainId = ''0x'' @ toString 16 137, p_chainName = net_name ?d,
              p_nativeCurrency = nativeCurrency ?d, p_rpcUrls = rpcUrls ?d,
              p_blockExplorerUrls = blockExplorerUrls ?d\<rparr>"
  let ?w3 = "?w\<lparr>rw_chain := 137, rw_known := 137 # rw_known ?w\<rparr>"
  have sw137: "wallet_switchEthereumChain refEthereum (''0x'' @ toString 16 137) ?w = (Inl ?e, ?w)"
    by (simp add: ref_switch ref_world_wallet hex_values parse_values)
  have d137: "map_of SUPPORTED_NETWORKS 137 = Some ?d"
    by (simp add: SUPPORTED_NETWORKS_def)
  have add137: "wallet_addEthereumChain refEthereum ?p ?w = (Inr (), ?w3)"
    by (simp add: ref_switch ref_world_wallet hex_values parse_values)
  have c137: "eth_chainId refEthereum ?w3 = (Inr ''0x89'', ?w3)"
    by (simp add: ref_chainId ref_world_wallet hex_values)
  have code: "code ?e = Some 4902" by simp
  have 3: "switchNetwork (Some refEthereum) 137 ?s
           = (Inr (reportedChain (Inr ''0x89'') = Num 137),
              ?s\<lparr>wallet := ?w3,
                 trace := trace ?s @
                   [EthChainId, WalletSwitchEthereumChain (''0x'' @ toString 16 137),
                    WalletAddEthereumChain ?p, EthChainId]\<rparr>)"
    using switchNetwork_outcomes [of refEthereum ?s 137] cur ne(2) sw137 code d137 add137 c137
    by simp
  have sw77: "wallet_switchEthereumChain refEthereum (''0x'' @ toString 16 77) ?w = (Inl ?e, ?w)"
    by (simp add: ref_switch ref_world_wallet hex_values parse_values)
  have d77: "map_of SUPPORTED_NETWORKS 77 = None"
    by (simp add: SUPPORTED_NETWORKS_def)
  have 4: "switchNetwork (Some refEthereum) 77 ?s
           = (Inl (Error (''Failed to add network: Network with chainId '' @ toString 10 77
                     @ '' is not supported. Please contact support.''
                     @ ''. Please try adding the network manually in your wallet.'')),
              ?s\<lparr>wallet := ?w,
                 trace := trace ?s @ [EthChainId, WalletSwitchEthereumChain (''0x'' @ toString 16 77)]\<rparr>)"
    using switchNetwork_outcomes [of refEthereum ?s 77] cur ne(3) sw77 code d77 by simp
  let ?r = "rejecting ?s"
  let ?wr = "wallet ?r"
  have curr: "eth_chainId refEthereum ?wr = (?c, ?wr)"
    by (simp add: ref_chainId ref_world_wallet rejecting_def toString_16_50002)
  have swr: "wallet_switchEthereumChain refEthereum (''0x'' @ toString 16 1) ?wr = (Inl userRejected, ?wr)"
    by (simp add: ref_switch ref_world_wallet rejecting_def)
  have coder: "code userRejected = Some 4001" by (simp add: userRejected_def)
  have 5: "switchNetwork (Some refEthereum) 1 ?r
           = (Inl (Error ''You rejected the network switch request. Please approve the network switch to continue.''),
              ?r\<lparr>wallet := ?wr,
                 trace := trace ?r @ [EthChainId, WalletSwitchEthereumChain (''0x'' @ toString 16 1)]\<rparr>)"
    using switchNetwork_outcomes [of refEthereum ?r 1] curr ne(1) swr coder by simp
  show ?thesis
    by (simp add: 1 2 3 4 5 reportedChain_Inr parse_values hex_values ref_world_wallet
          trace_rejecting polygonParams_def)
qed

section \<open>The persistence layer as a key-value store\<close>

lemma employerDB_add_healthy:
  assumes "faults (db s) = []"
  shows "employerDB_add r s =
     (case employers (db s) (ed_address r) of
        Some _ \<Rightarrow> (Inl ConstraintError, s\<lparr>trace := trace s @ [DbAdd EmployersStore (ed_address r)]\<rparr>)
      | None \<Rightarrow>
          (Inr (ed_address r),
           s\<lparr>trace := trace s @ [DbAdd EmployersStore (ed_address r)],
             db := (db s)\<lparr>employers := (employers (db s))(ed_address r \<mapsto> storedEmployer (clock s) r)\<rparr>\<rparr>))"
  using assms
  by (simp add: employerDB_add_def idb_request_def Let_def storedEmployer_def split: option.split)

lemma employeeDB_add_healthy:
  assumes "faults (db s) = []"
  shows "employeeDB_add r s =
     (case employees (db s) (dd_address r) of
        Some _ \<Rightarrow> (Inl ConstraintError, s\<lparr>trace := trace s @ [DbAdd EmployeesStore (dd_address r)]\<rparr>)
      | None \<Rightarrow>
          (Inr (dd_address r),
           s\<lparr>trace := trace s @ [DbAdd EmployeesStore (dd_address r)],
             db := (db s)\<lparr>employees := (employees (db s))(dd_address r \<mapsto> storedEmployee (clock s) r)\<rparr>\<rparr>))"
  using assms
  by (simp add: employeeDB_add_def idb_request_def Let_def storedEmployee_def split: option.split)

lemma employerDB_update_missing:
  "faults (db s) = [] \<Longrightarrow> employers (db s) (ep_address p) = None \<Longrightarrow>
   employerDB_update p s =
     (Inl (Error ''Employer not found''), s\<lparr>trace := trace s @ [DbGet EmployersStore (ep_address p)]\<rparr>)"
  by (simp add: employerDB_update_def await_def idb_request_def Let_def throw_def)

lemma employeeDB_update_missing:
  "faults (db s) = [] \<Longrightarrow> employees (db s) (pp_address p) = None \<Longrightarrow>
   employeeDB_update p s =
     (Inl (Error ''Employee not found''), s\<lparr>trace := trace s @ [DbGet EmployeesStore (pp_address p)]\<rparr>)"
  by (simp add: employeeDB_update_def await_def idb_request_def Let_def throw_def)

text \<open>
  C6. The persistence layer is a key-value store keyed by address. On a database whose
  requests succeed: after \<open>add\<close> has returned, \<open>get\<close> of the added address returns the
  added record with its \<open>registrationDate\<close> (and status \<open>Active\<close> for an employee), and
  \<open>add\<close> does return when the address was not keyed; \<open>get\<close> of any other address is
  unaffected; \<open>update\<close> for an address without a record throws and leaves both stores as
  they were.
\<close>

theorem persistence_key_value:
  assumes "faults (db s) = []"
  shows
   "(\<forall>k s'. employerDB_add r s = (Inr k, s') \<longrightarrow>
        fst (employerDB_get (ed_address r) s') =
          Inr (Some \<lparr>er_address = ed_address r, er_name = ed_name r,
                     er_registrationDate = clock s, er_lastLogin = ed_lastLogin r\<rparr>))
    \<and> (employers (db s) (ed_address r) = None \<longrightarrow> fst (employerDB_add r s) = Inr (ed_address r))
    \<and> (\<forall>a. a \<noteq> ed_address r \<longrightarrow>
          fst (employerDB_get a (snd (employerDB_add r s))) = fst (employerDB_get a s))
    \<and> (employers (db s) (ep_address p) = None \<longrightarrow>
          fst (employerDB_update p s) = Inl (Error ''Employer not found'')
          \<and> employers (db (snd (employerDB_update p s))) = employers (db s)
          \<and> employees (db (snd (employerDB_update p s))) = employees (db s))
    \<and> (\<forall>k s'. employeeDB_add r' s = (Inr k, s') \<longrightarrow>
        fst (employeeDB_get (dd_address r') s') =
          Inr (Some \<lparr>ee_address = dd_address r', ee_name = dd_name r',
                     ee_employerAddress = dd_employerAddress r', ee_amount = dd_amount r',
                     ee_schedule = dd_schedule r', ee_registrationDate = clock s,
                     ee_lastPaid = dd_lastPaid r', ee_status = Active\<rparr>))
    \<and> (employees (db s) (dd_address r') = None \<longrightarrow> fst (employeeDB_add r' s) = Inr (dd_address r'))
    \<and> (\<forall>a. a \<noteq> dd_address r' \<longrightarrow>
          fst (employeeDB_get a (snd (employeeDB_add r' s))) = fst (employeeDB_get a s))
    \<and> (employees (db s) (pp_address p') = None \<longrightarrow>
          fst (employeeDB_update p' s) = Inl (Error ''Employee not found'')
          \<and> employers (db (snd (employeeDB_update p' s))) = employers (db s)
          \<and> employees (db (snd (employeeDB_update p' s))) = employees (db s))"
proof (intro conjI)
  show "\<forall>k s'. employerDB_add r s = (Inr k, s') \<longrightarrow>
        fst (employerDB_get (ed_address r) s') =
          Inr (Some \<lparr>er_address = ed_address r, er_name = ed_name r,
                     er_registrationDate = clock s, er_lastLogin = ed_lastLogin r\<rparr>)"
    using assms
    by (auto simp: employerDB_add_healthy employerDB_get_healthy storedEmployer_def
          split: option.splits)
  show "employers (db s) (ed_address r) = None \<longrightarrow> fst (employerDB_add r s) = Inr (ed_address r)"
    using assms by (simp add: employerDB_add_healthy)
  show "\<forall>a. a \<noteq> ed_address r \<longrightarrow>
          fst (employerDB_get a (snd (employerDB_add r s))) = fst (employerDB_get a s)"
    using assms
    by (auto simp: employerDB_add_healthy employerDB_get_healthy split: option.splits)
  show "employers (db s) (ep_address p) = None \<longrightarrow>
          fst (employerDB_update p s) = Inl (Error ''Employer not found'')
          \<and> employers (db (snd (employerDB_update p s))) = employers (db s)
          \<and> employees (db (snd (employerDB_update p s))) = employees (db s)"
    using assms by (simp add: employerDB_update_missing)
  show "\<forall>k s'. employeeDB_add r' s = (Inr k, s') \<longrightarrow>
        fst (employeeDB_get (dd_address r') s') =
          Inr (Some \<lparr>ee_address = dd_address r', ee_name = dd_name r',
                     ee_employerAddress = dd_employerAddress r', ee_amount = dd_amount r',
                     ee_schedule = dd_schedule r', ee_registrationDate = clock s,
                     ee_lastPaid = dd_lastPaid r', ee_status = Active\<rparr>)"
    using assms
    by (auto simp: employeeDB_add_healthy employeeDB_get_healthy storedEmployee_def
          split: option.splits)
  show "employees (db s) (dd_address r') = None \<longrightarrow> fst (employeeDB_add r' s) = Inr (dd_address r')"
    using assms by (simp add: employeeDB_add_healthy)
  show "\<forall>a. a \<noteq> dd_address r' \<longrightarrow>
          fst (employeeDB_get a (snd (employeeDB_add r' s))) = fst (employeeDB_get a s)"
    using assms
    by (auto simp: employeeDB_add_healthy employeeDB_get_healthy split: option.splits)
  show "employees (db s) (pp_address p') = None \<longrightarrow>
          fst (employeeDB_update p' s) = Inl (Error ''Employee not found'')
          \<and> employers (db (snd (employeeDB_update p' s))) = employers (db s)
          \<and> employees (db (snd (employeeDB_update p' s))) = employees (db s)"
    using assms by (simp add: employeeDB_update_missing)
qed

theorem persistence_key_value_witness:
  "fst (employerDB_get carol (snd (employerDB_add carolEmployer (refWorld [alice] 50002 demoDb))))
     = Inr (Some \<lparr>er_address = carol, er_name = Some ''Carol and Co'',
                  er_registrationDate = 1700000000000, er_lastLogin = None\<rparr>)
   \<and> fst (employerDB_get alice (snd (employerDB_add carolEmployer (refWorld [alice] 50002 demoDb))))
     = fst (employerDB_get alice (refWorld [alice] 50002 demoDb))
   \<and> fst (employerDB_update \<lparr>ep_address = carol, ep_name = Some ''Carol'', ep_registrationDate = None,
                               ep_lastLogin = None\<rparr> (refWorld [alice] 50002 demoDb))
     = Inl (Error ''Employer not found'')
   \<and> fst (employeeDB_get carol (snd (employeeDB_add carolEmployee (refWorld [alice] 50002 demoDb))))
     = Inr (Some \<lparr>ee_address = carol, ee_name = ''Carol'', ee_employerAddress = alice,
                  ee_amount = ''250'', ee_schedule = ''weekly'',
                  ee_registrationDate = 1700000000000, ee_lastPaid = None, ee_status = Active\<rparr>)
   \<and> fst (employeeDB_get bob (snd (employeeDB_add carolEmployee (refWorld [alice] 50002 demoDb))))
     = fst (employeeDB_get bob (refWorld [alice] 50002 demoDb))
   \<and> fst (employeeDB_update \<lparr>pp_address = carol, pp_name = None, pp_employerAddress = None,
                               pp_amount = Some ''300'', pp_schedule = None,
                               pp_registrationDate = None, pp_lastPaid = None, pp_status = None\<rparr>
             (refWorld [alice] 50002 demoDb))
     = Inl (Error ''Employee not found'')"
proof -
  let ?s = "refWorld [alice] 50002 demoDb"
  have h: "faults (db ?s) = []" by (simp add: refWorld_def demoDb_def)
  have e: "employers (db ?s) carol = None" "employees (db ?s) carol = None"
    by (simp_all add: refWorld_def demoDb_def names_distinct)
  have c: "clock ?s = 1700000000000" by (simp add: refWorld_def)
  have a1: "employerDB_add carolEmployer ?s = (Inr carol, snd (employerDB_add carolEmployer ?s))"
    using h e by (simp add: employerDB_add_healthy carolEmployer_def)
  have a2: "employeeDB_add carolEmployee ?s = (Inr carol, snd (employeeDB_add carolEmployee ?s))"
    using h e by (simp add: employeeDB_add_healthy carolEmployee_def)
  from persistence_key_value [OF h, of carolEmployer
      "\<lparr>ep_address = carol, ep_name = Some ''Carol'', ep_registrationDate = None, ep_lastLogin = None\<rparr>"
      carolEmployee
      "\<lparr>pp_address = carol, pp_name = None, pp_employerAddress = None,
        pp_amount = Some ''300'', pp_schedule = None,
        pp_registrationDate = None, pp_lastPaid = None, pp_status = None\<rparr>"]
    a1 a2 e c
  show ?thesis
    by (simp add: carolEmployer_def carolEmployee_def names_distinct)
qed

section \<open>Role resolution\<close>

lemma checkUserRole_healthy:
  assumes "faults (db s) = []"
  shows "checkUserRole a s =
     (Inr (roleOf (db s) a),
      s\<lparr>trace := trace s @ (if employers (db s) a = None
                               then [DbGet EmployersStore a, DbGet EmployeesStore a]
                               else [DbGet EmployersStore a])\<rparr>)"
  using assms
  by (simp add: checkUserRole_def try_catch_def await_def employerDB_get_healthy
        employeeDB_get_healthy return_def roleOf_def split: option.split)

lemma checkUserRole_lookupFails:
  assumes "lookupFails a (db s)"
  shows "fst (checkUserRole a s) = Inr \<lparr>rr_role = None, rr_employerAddress = None\<rparr>"
  using assms
  by (auto simp: lookupFails_def checkUserRole_def try_catch_def await_def employerDB_get_def
        employeeDB_get_def idb_request_def Let_def return_def
        split: list.splits option.splits)

text \<open>
  C1. On a database whose lookups succeed, \<open>checkUserRole\<close> returns the role
  \<open>employer\<close> for an address keyed in the employers store; otherwise the role
  \<open>employee\<close> with the \<open>employerAddress\<close> of the record keyed in the employees store;
  otherwise the role \<open>null\<close>.
\<close>

theorem checkUserRole_resolves:
  assumes "faults (db s) = []"
  shows "(employers (db s) a \<noteq> None \<longrightarrow>
            fst (checkUserRole a s) = Inr \<lparr>rr_role = Some Employer, rr_employerAddress = None\<rparr>)
       \<and> (employers (db s) a = None \<longrightarrow>
            (\<forall>ee. employees (db s) a = Some ee \<longrightarrow>
               fst (checkUserRole a s) =
                 Inr \<lparr>rr_role = Some Employee, rr_employerAddress = Some (ee_employerAddress ee)\<rparr>))
       \<and> (employers (db s) a = None \<and> employees (db s) a = None \<longrightarrow>
            fst (checkUserRole a s) = Inr \<lparr>rr_role = None, rr_employerAddress = None\<rparr>)"
  using checkUserRole_healthy [OF assms, of a]
  by (auto simp: roleOf_def)

theorem checkUserRole_resolves_witness:
  "fst (checkUserRole alice (refWorld [alice] 50002 demoDb))
     = Inr \<lparr>rr_role = Some Employer, rr_employerAddress = None\<rparr>
   \<and> fst (checkUserRole bob (refWorld [alice] 50002 demoDb))
     = Inr \<lparr>rr_role = Some Employee, rr_employerAddress = Some alice\<rparr>
   \<and> fst (checkUserRole carol (refWorld [alice] 50002 demoDb))
     = Inr \<lparr>rr_role = None, rr_employerAddress = None\<rparr>"
  using checkUserRole_resolves [of "refWorld [alice] 50002 demoDb" alice]
        checkUserRole_resolves [of "refWorld [alice] 50002 demoDb" bob]
        checkUserRole_resolves [of "refWorld [alice] 50002 demoDb" carol]
  by (simp add: refWorld_def demoDb_def names_distinct)

section \<open>Connecting and logging in\<close>

lemma ref_connectWallet:
  "a \<noteq> [] \<Longrightarrow> rw_approves (wallet s) \<Longrightarrow> rw_accounts (wallet s) = a # as \<Longrightarrow>
   connectWallet (Some refEthereum) s =
     (Inr a, s\<lparr>signer := True,
              trace := trace s @ [EthRequestAccounts, EthAccounts, SignerGetAddress, EthChainId]\<rparr>)"
  by (simp add: connectWallet_def try_catch_def await_def rpc_def modify_def return_def throw_def
        ref_checkNetwork ref_ops)

lemma connectWallet_preserves_db: "preserves db (connectWallet ethereum)"
  unfolding connectWallet_def
  by (intro preserves_intros preserves_rpc preserves_modify checkNetwork_preserves_db) simp_all

lemma connectWallet_no_accounts:
  assumes "eth_requestAccounts eth (wallet s) = (Inr accounts, w1)"
    and "accounts = None \<or> accounts = Some []"
  shows "fst (connectWallet (Some eth) s) = Inl noAccounts"
  using assms
  by (auto simp: connectWallet_def try_catch_def await_def rpc_def throw_def Error_def noAccounts_def)

lemma connectWallet_request_failed:
  assumes "eth_requestAccounts eth (wallet s) = (Inl e, w1)"
  shows "fst (connectWallet (Some eth) s) = Inl (connectionError e)"
  using assms
  by (simp add: connectWallet_def try_catch_def await_def rpc_def throw_def connectionError_def)

lemma connectWallet_refresh_failed:
  assumes "eth_requestAccounts eth (wallet s) = (Inr (Some (a0 # as)), w1)"
    and "eth_accounts eth w1 = (Inl e, w2)"
  shows "fst (connectWallet (Some eth) s) = Inl (connectionError e)"
  using assms
  by (simp add: connectWallet_def try_catch_def await_def rpc_def throw_def connectionError_def)

lemma connectWallet_address:
  assumes "eth_requestAccounts eth (wallet s) = (Inr (Some (a0 # as)), w1)"
    and "eth_accounts eth w1 = (Inr x, w2)"
    and "signer_getAddress eth w2 = (r, w3)"
  shows "fst (connectWallet (Some eth) s) =
     (case r of
        Inr address \<Rightarrow>
          if address \<noteq> [] then Inr address
          else if a0 \<noteq> [] then Inr a0
          else Inl (Error ''Failed to get wallet address. Please try again.'')
      | Inl e \<Rightarrow>
          if a0 \<noteq> [] then Inr a0
          else Inl (Error ''Failed to get wallet address. Please try again.''))"
  using assms
  by (simp add: await_checkNetwork_return connectWallet_def try_catch_def await_def rpc_def
        modify_def return_def throw_def Error_def split: sum.split)

text \<open>
  C7. \<open>connectWallet\<close> throws when there is no wallet provider and when
  \<open>eth_requestAccounts\<close> answers with no account. Otherwise it returns the signer's
  address, or the first requested account (a non-empty string) when the signer's lookup
  fails or yields nothing. An error of the provider with code 4001 becomes the
  connection-rejected message, one with code -32002 the request-pending message, and any
  other error is rethrown as it is.
\<close>

theorem connectWallet_outcomes:
  "fst (connectWallet None s) =
     Inl (Error ''MetaMask or compatible wallet not detected. Please install a Web3 wallet to continue.'')
   \<and> (\<forall>w1. eth_requestAccounts eth (wallet s) = (Inr None, w1)
           \<or> eth_requestAccounts eth (wallet s) = (Inr (Some []), w1)
        \<longrightarrow> fst (connectWallet (Some eth) s) =
              Inl (Error ''No accounts found. Please ensure your wallet is unlocked and try again.''))
   \<and> (\<forall>a0 as w1 x w2 address w3.
          eth_requestAccounts eth (wallet s) = (Inr (Some (a0 # as)), w1)
          \<and> eth_accounts eth w1 = (Inr x, w2)
          \<and> signer_getAddress eth w2 = (Inr address, w3) \<and> address \<noteq> []
        \<longrightarrow> fst (connectWallet (Some eth) s) = Inr address)
   \<and> (\<forall>a0 as w1 x w2 e w3.
          eth_requestAccounts eth (wallet s) = (Inr (Some (a0 # as)), w1)
          \<and> eth_accounts eth w1 = (Inr x, w2)
          \<and> (signer_getAddress eth w2 = (Inl e, w3) \<or> signer_getAddress eth w2 = (Inr [], w3))
          \<and> a0 \<noteq> []
        \<longrightarrow> fst (connectWallet (Some eth) s) = Inr a0)
   \<and> (\<forall>e a0 as w1 w2.
          eth_requestAccounts eth (wallet s) = (Inl e, w1)
          \<or> eth_requestAccounts eth (wallet s) = (Inr (Some (a0 # as)), w1)
            \<and> eth_accounts eth w1 = (Inl e, w2)
        \<longrightarrow> fst (connectWallet (Some eth) s) =
              Inl (if code e = Some 4001 then
                     Error ''You rejected the wallet connection request. Please try again and approve the connection.''
                   else if code e = Some (- 32002) then
                     Error ''Wallet connection request already pending. Please check your wallet and approve the connection.''
                   else e))"
proof (intro conjI allI impI)
  show "fst (connectWallet None s) =
     Inl (Error ''MetaMask or compatible wallet not detected. Please install a Web3 wallet to continue.'')"
    by (simp add: connectWallet_def throw_def)
next
  fix w1
  assume "eth_requestAccounts eth (wallet s) = (Inr None, w1)
           \<or> eth_requestAccounts eth (wallet s) = (Inr (Some []), w1)"
  then show "fst (connectWallet (Some eth) s) =
              Inl (Error ''No accounts found. Please ensure your wallet is unlocked and try again.'')"
    using connectWallet_no_accounts [of eth s _ w1] by (auto simp: noAccounts_def)
next
  fix a0 as w1 x w2 address w3
  assume "eth_requestAccounts eth (wallet s) = (Inr (Some (a0 # as)), w1)
          \<and> eth_accounts eth w1 = (Inr x, w2)
          \<and> signer_getAddress eth w2 = (Inr address, w3) \<and> address \<noteq> []"
  then show "fst (connectWallet (Some eth) s) = Inr address"
    using connectWallet_address [of eth s a0 as w1 x w2 "Inr address" w3] by simp
next
  fix a0 as w1 x w2 e w3
  assume "eth_requestAccounts eth (wallet s) = (Inr (Some (a0 # as)), w1)
          \<and> eth_accounts eth w1 = (Inr x, w2)
          \<and> (signer_getAddress eth w2 = (Inl e, w3) \<or> signer_getAddress eth w2 = (Inr [], w3))
          \<and> a0 \<noteq> []"
  then show "fst (connectWallet (Some eth) s) = Inr a0"
    using connectWallet_address [of eth s a0 as w1 x w2 "Inl e" w3]
      connectWallet_address [of eth s a0 as w1 x w2 "Inr []" w3] by auto
next
  fix e a0 as w1 w2
  assume "eth_requestAccounts eth (wallet s) = (Inl e, w1)
          \<or> eth_requestAccounts eth (wallet s) = (Inr (Some (a0 # as)), w1)
            \<and> eth_accounts eth w1 = (Inl e, w2)"
  then show "fst (connectWallet (Some eth) s) =
              Inl (if code e = Some 4001 then
                     Error ''You rejected the wallet connection request. Please try again and approve the connection.''
                   else if code e = Some (- 32002) then
                     Error ''Wallet connection request already pending. Please check your wallet and approve the connection.''
                   else e)"
    using connectWallet_request_failed [of eth s e w1]
      connectWallet_refresh_failed [of eth s a0 as w1 e w2]
    by (auto simp: connectionError_def)
qed

theorem connectWallet_outcomes_witness:
  "fst (connectWallet (Some refEthereum) (refWorld [] 50002 emptyDb)) =
     Inl (Error ''No accounts found. Please ensure your wallet is unlocked and try again.'')
   \<and> fst (connectWallet (Some refEthereum) (refWorld [alice, bob] 50002 emptyDb)) = Inr alice
   \<and> fst (connectWallet (Some brokenSigner) (refWorld [bob] 50002 emptyDb)) = Inr bob
   \<and> fst (connectWallet (Some (busyWallet userRejected)) (refWorld [alice] 50002 emptyDb)) =
       Inl (Error ''You rejected the wallet connection request. Please try again and approve the connection.'')
   \<and> fst (connectWallet (Some (busyWallet (JsError (Some (- 32002)) ''Already processing.'')))
            (refWorld [alice] 50002 emptyDb)) =
       Inl (Error ''Wallet connection request already pending. Please check your wallet and approve the connection.'')
   \<and> fst (connectWallet (Some (busyWallet (JsError (Some (- 32603)) ''Internal error.'')))
            (refWorld [alice] 50002 emptyDb)) =
       Inl (JsError (Some (- 32603)) ''Internal error.'')"
proof (intro conjI)
  let ?w = "\<lambda>accounts. wallet (refWorld accounts 50002 emptyDb)"
  have "eth_requestAccounts refEthereum (?w []) = (Inr (Some []), ?w [])"
    by (simp add: ref_ops refWorld_def)
  with connectWallet_outcomes [of "refWorld [] 50002 emptyDb" refEthereum]
  show "fst (connectWallet (Some refEthereum) (refWorld [] 50002 emptyDb)) =
     Inl (Error ''No accounts found. Please ensure your wallet is unlocked and try again.'')"
    by blast
next
  let ?w = "wallet (refWorld [alice, bob] 50002 emptyDb)"
  have "eth_requestAccounts refEthereum ?w = (Inr (Some [alice, bob]), ?w)
        \<and> eth_accounts refEthereum ?w = (Inr [alice, bob], ?w)
        \<and> signer_getAddress refEthereum ?w = (Inr alice, ?w) \<and> alice \<noteq> []"
    by (simp add: ref_ops refWorld_def names_distinct)
  with connectWallet_outcomes [of "refWorld [alice, bob] 50002 emptyDb" refEthereum]
  show "fst (connectWallet (Some refEthereum) (refWorld [alice, bob] 50002 emptyDb)) = Inr alice"
    by blast
next
  let ?w = "wallet (refWorld [bob] 50002 emptyDb)"
  have "eth_requestAccounts brokenSigner ?w = (Inr (Some [bob]), ?w)
        \<and> eth_accounts brokenSigner ?w = (Inr [bob], ?w)
        \<and> (signer_getAddress brokenSigner ?w = (Inl (Error ''unknown account #0''), ?w)
            \<or> signer_getAddress brokenSigner ?w = (Inr [], ?w))
        \<and> bob \<noteq> []"
    by (simp add: brokenSigner_def ref_ops refWorld_def names_distinct)
  with connectWallet_outcomes [of "refWorld [bob] 50002 emptyDb" brokenSigner]
  show "fst (connectWallet (Some brokenSigner) (refWorld [bob] 50002 emptyDb)) = Inr bob"
    by blast
next
  let ?w = "wallet (refWorld [alice] 50002 emptyDb)"
  have "eth_requestAccounts (busyWallet userRejected) ?w = (Inl userRejected, ?w)"
    by (simp add: busyWallet_def)
  with connectWallet_outcomes [of "refWorld [alice] 50002 emptyDb" "busyWallet userRejected"]
  have "fst (connectWallet (Some (busyWallet userRejected)) (refWorld [alice] 50002 emptyDb)) =
        Inl (if code userRejected = Some 4001 then
               Error ''You rejected the wallet connection request. Please try again and approve the connection.''
             else if code userRejected = Some (- 32002) then
               Error ''Wallet connection request already pending. Please check your wallet and approve the connection.''
             else userRejected)"
    by blast
  then show "fst (connectWallet (Some (busyWallet userRejected)) (refWorld [alice] 50002 emptyDb)) =
       Inl (Error ''You rejected the wallet connection request. Please try again and approve the connection.'')"
    by (simp add: userRejected_def)
next
  let ?w = "wallet (refWorld [alice] 50002 emptyDb)"
  let ?e = "JsError (Some (- 32002)) ''Already processing.''"
  have "eth_requestAccounts (busyWallet ?e) ?w = (Inl ?e, ?w)"
    by (simp add: busyWallet_def)
  with connectWallet_outcomes [of "refWorld [alice] 50002 emptyDb" "busyWallet ?e"]
  have "fst (connectWallet (Some (busyWallet ?e)) (refWorld [alice] 50002 emptyDb)) =
        Inl (if code ?e = Some 4001 then
               Error ''You rejected the wallet connection request. Please try again and approve the connection.''
             else if code ?e = Some (- 32002) then
               Error ''Wallet connection request already pending. Please check your wallet and approve the connection.''
             else ?e)"
    by blast
  then show "fst (connectWallet (Some (busyWallet ?e)) (refWorld [alice] 50002 emptyDb)) =
       Inl (Error ''Wallet connection request already pending. Please check your wallet and approve the connection.'')"
    by simp
next
  let ?w = "wallet (refWorld [alice] 50002 emptyDb)"
  let ?e = "JsError (Some (- 32603)) ''Internal error.''"
  have "eth_requestAccounts (busyWallet ?e) ?w = (Inl ?e, ?w)"
    by (simp add: busyWallet_def)
  with connectWallet_outcomes [of "refWorld [alice] 50002 emptyDb" "busyWallet ?e"]
  have "fst (connectWallet (Some (busyWallet ?e)) (refWorld [alice] 50002 emptyDb)) =
        Inl (if code ?e = Some 4001 then
               Error ''You rejected the wallet connection request. Please try again and approve the connection.''
             else if code ?e = Some (- 32002) then
               Error ''Wallet connection request already pending. Please check your wallet and approve the connection.''
             else ?e)"
    by blast
  then show "fst (connectWallet (Some (busyWallet ?e)) (refWorld [alice] 50002 emptyDb)) =
       Inl ?e"
    by simp
qed

lemma login_connect_failed:
  "connectWallet ethereum s = (Inl e, s1) \<Longrightarrow>
   login ethereum s =
     (Inl (if code e = Some 4001
           then Error ''You rejected the wallet connection request. Please try again and approve the connection.''
           else e), s1)"
  by (simp add: login_def try_catch_def await_def throw_def)

lemma login_unsupported:
  "connectWallet ethereum s = (Inr a, s1) \<Longrightarrow> checkNetwork ethereum s1 = (Inr st, s2) \<Longrightarrow>
   \<not> ns_valid st \<Longrightarrow>
   login ethereum s =
     (Inl (Error (''Please switch to a supported network to login. Current network: '' @ ns_name st)), s2)"
  by (simp add: login_def try_catch_def await_def throw_def Error_def)

lemma login_resolved:
  "connectWallet ethereum s = (Inr a, s1) \<Longrightarrow> checkNetwork ethereum s1 = (Inr st, s2) \<Longrightarrow>
   ns_valid st \<Longrightarrow> checkUserRole a s2 = (Inr r, s3) \<Longrightarrow>
   login ethereum s =
     (if rr_role r = None then Inl notRegistered
      else Inr \<lparr>lr_address = a, lr_role = rr_role r, lr_employerAddress = rr_employerAddress r\<rparr>, s3)"
  by (simp add: login_def try_catch_def await_def throw_def return_def Error_def notRegistered_def)

text \<open>
  C9. \<open>checkUserRole\<close> never throws. When one of its store lookups rejects, it returns
  the role \<open>null\<close>, which is also its answer for an address in neither store; \<open>login\<close>
  then fails with the same "not registered" error in both situations.
\<close>

theorem checkUserRole_never_throws:
  "(\<exists>r. fst (checkUserRole a s) = Inr r)
   \<and> (lookupFails a (db s) \<longrightarrow>
        fst (checkUserRole a s) = Inr \<lparr>rr_role = None, rr_employerAddress = None\<rparr>)
   \<and> (faults (db s) = [] \<and> employers (db s) a = None \<and> employees (db s) a = None \<longrightarrow>
        fst (checkUserRole a s) = Inr \<lparr>rr_role = None, rr_employerAddress = None\<rparr>)
   \<and> (\<forall>s1 s2 st.
        connectWallet ethereum s = (Inr a, s1) \<and> checkNetwork ethereum s1 = (Inr st, s2) \<and> ns_valid st
        \<and> (lookupFails a (db s)
           \<or> faults (db s) = [] \<and> employers (db s) a = None \<and> employees (db s) a = None)
        \<longrightarrow> fst (login ethereum s) =
              Inl (Error ''This wallet is not registered. Please register first to access the platform.''))"
proof (intro conjI allI impI)
  show "\<exists>r. fst (checkUserRole a s) = Inr r"
    unfolding checkUserRole_def by (rule try_catch_total)
next
  assume "lookupFails a (db s)"
  then show "fst (checkUserRole a s) = Inr \<lparr>rr_role = None, rr_employerAddress = None\<rparr>"
    by (rule checkUserRole_lookupFails)
next
  assume "faults (db s) = [] \<and> employers (db s) a = None \<and> employees (db s) a = None"
  then show "fst (checkUserRole a s) = Inr \<lparr>rr_role = None, rr_employerAddress = None\<rparr>"
    by (simp add: checkUserRole_healthy roleOf_def)
next
  fix s1 s2 st
  assume h: "connectWallet ethereum s = (Inr a, s1) \<and> checkNetwork ethereum s1 = (Inr st, s2)
       \<and> ns_valid st
       \<and> (lookupFails a (db s)
          \<or> faults (db s) = [] \<and> employers (db s) a = None \<and> employees (db s) a = None)"
  then have c: "connectWallet ethereum s = (Inr a, s1)"
    and n: "checkNetwork ethereum s1 = (Inr st, s2)" and v: "ns_valid st" by simp_all
  have d: "db s2 = db s"
    using preservesD [OF connectWallet_preserves_db c] preservesD [OF checkNetwork_preserves_db n]
    by simp
  have "fst (checkUserRole a s2) = Inr \<lparr>rr_role = None, rr_employerAddress = None\<rparr>"
    using h d by (auto simp: checkUserRole_lookupFails checkUserRole_healthy roleOf_def)
  then obtain s3 where
    r: "checkUserRole a s2 = (Inr \<lparr>rr_role = None, rr_employerAddress = None\<rparr>, s3)"
    by (cases "checkUserRole a s2") simp
  show "fst (login ethereum s) =
        Inl (Error ''This wallet is not registered. Please register first to access the platform.'')"
    using login_resolved [OF c n v r] by (simp add: notRegistered_def)
qed

theorem checkUserRole_never_throws_witness:
  "lookupFails alice (db (refWorld [alice] 50002 faultyDb))
   \<and> employers (db (refWorld [alice] 50002 faultyDb)) alice \<noteq> None
   \<and> fst (checkUserRole alice (refWorld [alice] 50002 faultyDb))
       = Inr \<lparr>rr_role = None, rr_employerAddress = None\<rparr>
   \<and> fst (login (Some refEthereum) (refWorld [alice] 50002 faultyDb))
       = Inl (Error ''This wallet is not registered. Please register first to access the platform.'')"
proof -
  let ?s = "refWorld [alice] 50002 faultyDb"
  let ?s1 = "?s\<lparr>signer := True,
              trace := trace ?s @ [EthRequestAccounts, EthAccounts, SignerGetAddress, EthChainId]\<rparr>"
  let ?s2 = "?s1\<lparr>trace := trace ?s1 @ [EthChainId]\<rparr>"
  let ?st = "\<lparr>ns_valid = True, ns_chainId = Num 50002, ns_name = ''PHAROS''\<rparr>"
  have f: "lookupFails alice (db ?s)"
    by (simp add: lookupFails_def refWorld_def faultyDb_def)
  have e: "employers (db ?s) alice \<noteq> None"
    by (simp add: refWorld_def faultyDb_def demoDb_def)
  have c: "connectWallet (Some refEthereum) ?s = (Inr alice, ?s1)"
    by (rule ref_connectWallet) (simp_all add: refWorld_def names_distinct)
  have n: "checkNetwork (Some refEthereum) ?s1 = (Inr ?st, ?s2)"
    by (simp add: ref_checkNetwork refWorld_def toString_16_50002 statusOf_c352)
  from checkUserRole_never_throws [of alice ?s "Some refEthereum"] f c n
  have "fst (checkUserRole alice ?s) = Inr \<lparr>rr_role = None, rr_employerAddress = None\<rparr>"
    and "fst (login (Some refEthereum) ?s) =
       Inl (Error ''This wallet is not registered. Please register first to access the platform.'')"
    by auto
  with f e show ?thesis by simp
qed

section \<open>The login flow\<close>

subsection \<open>The order of effects\<close>

lemma orderedD:
  "ordered lo hi m \<Longrightarrow> m s = (r, s') \<Longrightarrow>
   \<exists>t. trace s' = trace s @ t \<and> sorted (map phase t) \<and> (\<forall>e \<in> set t. lo \<le> phase e \<and> phase e \<le> hi)"
  by (auto simp: ordered_def dest: spec [of _ s])

lemma ordered_return: "ordered lo hi (return x)"
  by (simp add: ordered_def return_def)

lemma ordered_throw: "ordered lo hi (throw e)"
  by (simp add: ordered_def throw_def)

lemma ordered_weaken: "ordered lo hi m \<Longrightarrow> lo' \<le> lo \<Longrightarrow> hi \<le> hi' \<Longrightarrow> ordered lo' hi' m"
  by (fastforce simp: ordered_def)

lemma ordered_seq:
  assumes m: "m s = (r, s1)" and om: "ordered lo mid m"
    and k: "k s1 = (r2, s2)" and ok: "ordered mid hi k"
    and b: "lo \<le> mid" "mid \<le> hi"
  shows "\<exists>t. trace s2 = trace s @ t \<and> sorted (map phase t)
             \<and> (\<forall>e \<in> set t. lo \<le> phase e \<and> phase e \<le> hi)"
proof -
  obtain t1 where t1: "trace s1 = trace s @ t1" "sorted (map phase t1)"
    "\<forall>e \<in> set t1. lo \<le> phase e \<and> phase e \<le> mid"
    using orderedD [OF om m] by blast
  obtain t2 where t2: "trace s2 = trace s1 @ t2" "sorted (map phase t2)"
    "\<forall>e \<in> set t2. mid \<le> phase e \<and> phase e \<le> hi"
    using orderedD [OF ok k] by blast
  have "sorted (map phase (t1 @ t2))"
    using t1 t2 by (fastforce simp: sorted_append)
  moreover have "\<forall>e \<in> set (t1 @ t2). lo \<le> phase e \<and> phase e \<le> hi"
    using t1 t2 b by fastforce
  ultimately show ?thesis using t1(1) t2(1) by auto
qed

lemma ordered_await:
  assumes "ordered lo mid m" and "\<And>x. ordered mid hi (f x)" and "lo \<le> mid" and "mid \<le> hi"
  shows "ordered lo hi (await m f)"
  unfolding ordered_def
proof
  fix s
  obtain r s1 where m: "m s = (r, s1)" by (cases "m s")
  show "\<exists>t. trace (snd (await m f s)) = trace s @ t \<and> sorted (map phase t)
            \<and> (\<forall>e \<in> set t. lo \<le> phase e \<and> phase e \<le> hi)"
  proof (cases r)
    case (Inl e)
    have "throw e s1 = (Inl e, s1)" by (simp add: throw_def)
    from ordered_seq [OF m assms(1) this ordered_throw assms(3,4)]
    show ?thesis using m Inl by (simp add: await_def)
  next
    case (Inr x)
    obtain r2 s2 where k: "f x s1 = (r2, s2)" by (cases "f x s1")
    from ordered_seq [OF m assms(1) k assms(2) assms(3,4)]
    show ?thesis using m Inr k by (simp add: await_def)
  qed
qed

lemma ordered_try_catch:
  assumes "ordered lo mid m" and "\<And>e. ordered mid hi (h e)" and "lo \<le> mid" and "mid \<le> hi"
  shows "ordered lo hi (try_catch m h)"
  unfolding ordered_def
proof
  fix s
  obtain r s1 where m: "m s = (r, s1)" by (cases "m s")
  show "\<exists>t. trace (snd (try_catch m h s)) = trace s @ t \<and> sorted (map phase t)
            \<and> (\<forall>e \<in> set t. lo \<le> phase e \<and> phase e \<le> hi)"
  proof (cases r)
    case (Inr x)
    have "return x s1 = (Inr x, s1)" by (simp add: return_def)
    from ordered_seq [OF m assms(1) this ordered_return assms(3,4)]
    show ?thesis using m Inr by (simp add: try_catch_def)
  next
    case (Inl e)
    obtain r2 s2 where k: "h e s1 = (r2, s2)" by (cases "h e s1")
    from ordered_seq [OF m assms(1) k assms(2) assms(3,4)]
    show ?thesis using m Inl k by (simp add: try_catch_def)
  qed
qed

lemma ordered_try_finally:
  "ordered lo hi m \<Longrightarrow> (\<And>s. trace (fin s) = trace s) \<Longrightarrow> ordered lo hi (try_finally m fin)"
  by (simp add: ordered_def try_finally_def split: prod.split) (metis snd_conv)

lemma ordered_if: "ordered lo hi a \<Longrightarrow> ordered lo hi b \<Longrightarrow> ordered lo hi (if c then a else b)"
  by simp

lemma ordered_case_option:
  "ordered lo hi a \<Longrightarrow> (\<And>y. ordered lo hi (b y)) \<Longrightarrow>
   ordered lo hi (case x of None \<Rightarrow> a | Some y \<Rightarrow> b y)"
  by (cases x) simp_all

lemma ordered_case_list:
  "ordered lo hi a \<Longrightarrow> (\<And>y ys. ordered lo hi (b y ys)) \<Longrightarrow>
   ordered lo hi (case x of [] \<Rightarrow> a | y # ys \<Rightarrow> b y ys)"
  by (cases x) simp_all

lemma ordered_event:
  assumes "\<And>s. trace (snd (m s)) = trace s @ [ev]" and "lo \<le> phase ev" and "phase ev \<le> hi"
  shows "ordered lo hi m"
  using assms by (simp add: ordered_def)

lemma ordered_rpc: "lo \<le> phase ev \<Longrightarrow> phase ev \<le> hi \<Longrightarrow> ordered lo hi (rpc ev call)"
  by (rule ordered_event [where ev = ev]) (simp_all add: rpc_def split: prod.split)

lemma ordered_idb_request:
  "lo \<le> phase ev \<Longrightarrow> phase ev \<le> hi \<Longrightarrow> ordered lo hi (idb_request ev op)"
  by (rule ordered_event [where ev = ev])
     (simp_all add: idb_request_def Let_def split: prod.split list.split option.split)

lemma ordered_silent: "(\<And>s. trace (g s) = trace s) \<Longrightarrow> ordered lo hi (modify g)"
  by (simp add: ordered_def modify_def)

lemmas ordered_intros =
  ordered_return ordered_throw ordered_if ordered_case_option ordered_case_list

lemma checkNetwork_ordered: "ordered 1 1 (checkNetwork ethereum)"
  unfolding checkNetwork_def Let_def
  by (intro ordered_intros ordered_try_catch [where mid = 1] ordered_await [where mid = 1]
        ordered_rpc) simp_all

lemma connect_tail_ordered: "ordered 0 1 (await (checkNetwork ethereum) (\<lambda>networkStatus. return a))"
  by (rule ordered_await [where mid = 1])
     (simp_all add: ordered_return ordered_weaken [OF checkNetwork_ordered])

lemma connect_tail_ordered':
  "ordered 0 1 (\<lambda>s. (Inr a :: jserr + string, snd (checkNetwork ethereum s)))"
  using connect_tail_ordered [of ethereum a] by (simp add: await_checkNetwork_return)

lemma ordered_await_first:
  "ordered lo lo m \<Longrightarrow> (\<And>x. ordered lo hi (f x)) \<Longrightarrow> lo \<le> hi \<Longrightarrow> ordered lo hi (await m f)"
  by (rule ordered_await [where mid = lo]) simp_all

lemma ordered_try_catch_last:
  "ordered lo hi m \<Longrightarrow> (\<And>e. ordered hi hi (h e)) \<Longrightarrow> lo \<le> hi \<Longrightarrow>
   ordered lo hi (try_catch m h)"
  by (rule ordered_try_catch [where mid = hi]) simp_all

lemma connectWallet_ordered: "ordered 0 1 (connectWallet ethereum)"
  unfolding connectWallet_def await_checkNetwork_return
  by (intro ordered_intros connect_tail_ordered' ordered_try_catch_last
        ordered_await_first ordered_rpc ordered_silent) simp_all

lemma checkUserRole_ordered: "ordered 2 2 (checkUserRole a)"
  unfolding checkUserRole_def employerDB_get_def employeeDB_get_def
  by (intro ordered_intros ordered_try_catch [where mid = 2] ordered_await [where mid = 2]
        ordered_idb_request) simp_all

lemma login_ordered: "ordered 0 2 (login ethereum)"
  unfolding login_def
proof (rule ordered_try_catch [where mid = 2])
  show "ordered 0 2
     (await (connectWallet ethereum) (\<lambda>address.
        await (checkNetwork ethereum) (\<lambda>networkStatus.
          if \<not> ns_valid networkStatus then
            throw (Error (''Please switch to a supported network to login. Current network: ''
                          @ ns_name networkStatus))
          else
            await (checkUserRole address) (\<lambda>r.
              if rr_role r = None then
                throw (Error ''This wallet is not registered. Please register first to access the platform.'')
              else return \<lparr>lr_address = address, lr_role = rr_role r,
                           lr_employerAddress = rr_employerAddress r\<rparr>))))"
  proof (rule ordered_await [where mid = 1, OF connectWallet_ordered])
    fix address
    show "ordered 1 2
      (await (checkNetwork ethereum) (\<lambda>networkStatus.
          if \<not> ns_valid networkStatus then
            throw (Error (''Please switch to a supported network to login. Current network: ''
                          @ ns_name networkStatus))
          else
            await (checkUserRole address) (\<lambda>r.
              if rr_role r = None then
                throw (Error ''This wallet is not registered. Please register first to access the platform.'')
              else return \<lparr>lr_address = address, lr_role = rr_role r,
                           lr_employerAddress = rr_employerAddress r\<rparr>)))"
      by (intro ordered_await [where mid = 1, OF checkNetwork_ordered] ordered_intros
            ordered_await [where mid = 2, OF ordered_weaken [OF checkUserRole_ordered]])
         simp_all
  qed simp_all
qed (simp_all add: ordered_intros)

lemma setters_ordered:
  "lo \<le> 3 \<Longrightarrow> 3 \<le> hi \<Longrightarrow> ordered lo hi (setAddress a)"
  "lo \<le> 3 \<Longrightarrow> 3 \<le> hi \<Longrightarrow> ordered lo hi (setRole r)"
  "lo \<le> 3 \<Longrightarrow> 3 \<le> hi \<Longrightarrow> ordered lo hi (setIsConnected b)"
  "lo \<le> 3 \<Longrightarrow> 3 \<le> hi \<Longrightarrow> ordered lo hi (setIsAuthenticated b)"
  "lo \<le> 3 \<Longrightarrow> 3 \<le> hi \<Longrightarrow> ordered lo hi (setEmployerAddress a)"
  "lo \<le> 4 \<Longrightarrow> 4 \<le> hi \<Longrightarrow> ordered lo hi (routerPush p)"
  by (simp_all add: ordered_def setAddress_def setRole_def setIsConnected_def
        setIsAuthenticated_def setEmployerAddress_def routerPush_def modify_def)

lemma persist_ordered:
  "ordered 2 4
     (await (setAddress (Some (lr_address res))) (\<lambda>_.
      await (setRole (lr_role res)) (\<lambda>_.
      await (setIsConnected True) (\<lambda>_.
      await (setIsAuthenticated True) (\<lambda>_.
      await (case lr_employerAddress res of
               None \<Rightarrow> return ()
             | Some employerAddress \<Rightarrow>
                 if lr_role res = Some Employee \<and> employerAddress \<noteq> [] then
                   setEmployerAddress (Some employerAddress)
                 else return ()) (\<lambda>_.
      if lr_role res = Some Employer then routerPush ''/employer''
      else if lr_role res = Some Employee then routerPush ''/employee''
      else return ()))))))"
  by (rule ordered_await [where mid = 3])
     (intro ordered_intros ordered_await_first setters_ordered | simp)+

lemma useAuthentication_login_ordered: "ordered 0 4 (useAuthentication_login ethereum)"
  unfolding useAuthentication_login_def
  by (intro ordered_await_first ordered_silent ordered_try_finally ordered_try_catch_last
        ordered_await [where mid = 2, OF login_ordered] persist_ordered ordered_throw)
     simp_all

subsection \<open>The outcome of a login\<close>

lemma preserves_idb_request:
  "(\<And>s d t. f (s\<lparr>trace := t, db := d\<rparr>) = f s) \<Longrightarrow> preserves f (idb_request ev op)"
  by (simp add: preserves_def idb_request_def Let_def split: prod.split list.split option.split)

lemma checkNetwork_preserves_user: "preserves user (checkNetwork ethereum)"
  unfolding checkNetwork_def Let_def
  by (intro preserves_intros preserves_rpc) simp

lemma connectWallet_preserves_user: "preserves user (connectWallet ethereum)"
  unfolding connectWallet_def
  by (intro preserves_intros preserves_rpc preserves_modify checkNetwork_preserves_user) simp_all

lemma checkUserRole_preserves_user: "preserves user (checkUserRole a)"
  unfolding checkUserRole_def employerDB_get_def employeeDB_get_def
  by (intro preserves_intros preserves_idb_request) simp_all

lemma login_preserves_user: "preserves user (login ethereum)"
  unfolding login_def
  by (intro preserves_intros connectWallet_preserves_user checkNetwork_preserves_user
        checkUserRole_preserves_user)

lemma checkUserRole_returns: "\<exists>r s'. checkUserRole a s = (Inr r, s')"
  using try_catch_total [of _ _ s] unfolding checkUserRole_def
  by (metis prod.collapse)

lemma login_returns_role:
  assumes "login ethereum s = (Inr res, s')"
  shows "lr_role res \<noteq> None"
proof -
  obtain r1 s1 where c: "connectWallet ethereum s = (r1, s1)" by (cases "connectWallet ethereum s")
  show ?thesis
  proof (cases r1)
    case (Inl e)
    with c assms login_connect_failed [of ethereum s e s1] show ?thesis by simp
  next
    case (Inr a)
    obtain st s2 where n: "checkNetwork ethereum s1 = (Inr st, s2)"
      using checkNetwork_returns by blast
    show ?thesis
    proof (cases "ns_valid st")
      case False
      with c Inr n assms login_unsupported [of ethereum s a s1 st s2] show ?thesis by simp
    next
      case True
      obtain r s3 where u: "checkUserRole a s2 = (Inr r, s3)"
        using checkUserRole_returns by blast
      from c Inr have "connectWallet ethereum s = (Inr a, s1)" by simp
      from login_resolved [OF this n True u] assms show ?thesis
        by (auto split: if_splits)
    qed
  qed
qed

lemma hook_failed:
  assumes "login ethereum (s\<lparr>h_isLoading := True, h_error := None\<rparr>) = (Inl e, s')"
  shows "useAuthentication_login ethereum s =
     (Inl e, s'\<lparr>h_error := Some (or_else (message e) ''Failed to login''), h_isLoading := False\<rparr>)"
  using assms
  by (simp add: useAuthentication_login_def await_def modify_def try_finally_def try_catch_def
        throw_def)

lemma hook_succeeded:
  assumes "login ethereum (s\<lparr>h_isLoading := True, h_error := None\<rparr>) = (Inr res, s')"
  shows "fst (useAuthentication_login ethereum s) = Inr ()
    \<and> user (snd (useAuthentication_login ethereum s)) =
        (user s')\<lparr>u_address := Some (lr_address res), u_role := lr_role res,
                  u_isConnected := True, u_isAuthenticated := True,
                  u_employerAddress :=
                    (if lr_role res = Some Employee \<and> truthy (lr_employerAddress res)
                     then lr_employerAddress res else u_employerAddress (user s'))\<rparr>
    \<and> trace (snd (useAuthentication_login ethereum s)) =
        trace s' @ [SetAddress (Some (lr_address res)), SetRole (lr_role res),
                    SetIsConnected True, SetIsAuthenticated True]
          @ (if lr_role res = Some Employee \<and> truthy (lr_employerAddress res)
             then [SetEmployerAddress (lr_employerAddress res)] else [])
          @ [RouterPush (if lr_role res = Some Employer then ''/employer'' else ''/employee'')]"
proof -
  from login_returns_role [OF assms] obtain ro where ro: "lr_role res = Some ro" by blast
  show ?thesis
    using assms ro
    by (cases ro; cases "lr_employerAddress res")
       (simp_all add: useAuthentication_login_def await_def modify_def try_finally_def
          try_catch_def return_def setAddress_def setRole_def setIsConnected_def
          setIsAuthenticated_def setEmployerAddress_def routerPush_def truthy_def)
qed

lemma values_42: "toString 16 42 = ''2a''" "parseInt16 ''0x2a'' = Num 42"
  by (simp_all add: toString_def digitChar_def parseInt16_def isWhiteSpace_def hexDigitVal_def
        hexVal_def Let_def)

lemma statusOf_2a:
  "statusOf ''0x2a'' = \<lparr>ns_valid = False, ns_chainId = Num 42, ns_name = ''Unknown Network''\<rparr>"
  by (simp add: statusOf_def values_42 supported_includes_def supported_lookup_def
        SUPPORTED_NETWORKS_def)

lemma busy_connectWallet:
  "connectWallet (Some (busyWallet e)) s =
     (Inl (connectionError e), s\<lparr>trace := trace s @ [EthRequestAccounts]\<rparr>)"
  by (simp add: connectWallet_def try_catch_def await_def rpc_def throw_def busyWallet_def
        connectionError_def)

text \<open>
  C3. The login flow is linear: connect the wallet, validate the network, resolve the role,
  persist the authentication state, redirect. In every run of the hook's \<open>login\<close> the
  effects come in that order. The service's \<open>login\<close> throws where the connection left off
  when connecting fails; after a connection it checks the network and throws, without a
  role lookup, when the network is not supported; after a lookup it throws when the role
  is \<open>null\<close> and returns address, role and employer address otherwise. When the service
  throws, the hook rethrows the error with the user store untouched and no redirect; when
  it returns, the role is not \<open>null\<close>, and the hook stores address, role and (for an
  employee) the employer address and then pushes the route of the role.
\<close>

theorem login_flow_order:
  "(\<forall>r s'. useAuthentication_login ethereum s = (r, s')
       \<longrightarrow> (\<exists>t. trace s' = trace s @ t \<and> sorted (map phase t)))
   \<and> (\<forall>e s1. connectWallet ethereum s = (Inl e, s1)
       \<longrightarrow> (\<exists>e'. login ethereum s = (Inl e', s1)))
   \<and> (\<forall>a s1 st s2.
        connectWallet ethereum s = (Inr a, s1) \<and> checkNetwork ethereum s1 = (Inr st, s2)
        \<and> \<not> ns_valid st
       \<longrightarrow> login ethereum s =
             (Inl (Error (''Please switch to a supported network to login. Current network: ''
                          @ ns_name st)), s2)
           \<and> (\<exists>t. trace s2 = trace s @ t \<and> (\<forall>e \<in> set t. phase e \<le> 1)))
   \<and> (\<forall>a s1 st s2 r s3.
        connectWallet ethereum s = (Inr a, s1) \<and> checkNetwork ethereum s1 = (Inr st, s2)
        \<and> ns_valid st \<and> checkUserRole a s2 = (Inr r, s3)
       \<longrightarrow> login ethereum s =
             (if rr_role r = None then
                Inl (Error ''This wallet is not registered. Please register first to access the platform.'')
              else Inr \<lparr>lr_address = a, lr_role = rr_role r,
                        lr_employerAddress = rr_employerAddress r\<rparr>, s3))
   \<and> (\<forall>e s'. login ethereum (s\<lparr>h_isLoading := True, h_error := None\<rparr>) = (Inl e, s')
       \<longrightarrow> fst (useAuthentication_login ethereum s) = Inl e
           \<and> user (snd (useAuthentication_login ethereum s)) = user s
           \<and> trace (snd (useAuthentication_login ethereum s)) = trace s')
   \<and> (\<forall>res s'. login ethereum (s\<lparr>h_isLoading := True, h_error := None\<rparr>) = (Inr res, s')
       \<longrightarrow> lr_role res \<noteq> None
           \<and> fst (useAuthentication_login ethereum s) = Inr ()
           \<and> user (snd (useAuthentication_login ethereum s)) =
               (user s)\<lparr>u_address := Some (lr_address res), u_role := lr_role res,
                        u_isConnected := True, u_isAuthenticated := True,
                        u_employerAddress :=
                          (if lr_role res = Some Employee \<and> truthy (lr_employerAddress res)
                           then lr_employerAddress res else u_employerAddress (user s))\<rparr>
           \<and> trace (snd (useAuthentication_login ethereum s)) =
               trace s' @ [SetAddress (Some (lr_address res)), SetRole (lr_role res),
                           SetIsConnected True, SetIsAuthenticated True]
                 @ (if lr_role res = Some Employee \<and> truthy (lr_employerAddress res)
                    then [SetEmployerAddress (lr_employerAddress res)] else [])
                 @ [RouterPush (if lr_role res = Some Employer then ''/employer''
                                else ''/employee'')])"
proof (intro conjI allI impI)
  fix r s'
  assume "useAuthentication_login ethereum s = (r, s')"
  from orderedD [OF useAuthentication_login_ordered this]
  show "\<exists>t. trace s' = trace s @ t \<and> sorted (map phase t)" by blast
next
  fix e s1
  assume "connectWallet ethereum s = (Inl e, s1)"
  then show "\<exists>e'. login ethereum s = (Inl e', s1)"
    by (simp add: login_connect_failed)
next
  fix a s1 st s2
  assume h: "connectWallet ethereum s = (Inr a, s1) \<and> checkNetwork ethereum s1 = (Inr st, s2)
        \<and> \<not> ns_valid st"
  then show "login ethereum s =
             (Inl (Error (''Please switch to a supported network to login. Current network: ''
                          @ ns_name st)), s2)"
    by (simp add: login_unsupported)
  from h have c: "connectWallet ethereum s = (Inr a, s1)"
    and n: "checkNetwork ethereum s1 = (Inr st, s2)" by simp_all
  from ordered_seq [OF c connectWallet_ordered n checkNetwork_ordered]
  show "\<exists>t. trace s2 = trace s @ t \<and> (\<forall>e \<in> set t. phase e \<le> 1)" by auto
next
  fix a s1 st s2 r s3
  assume "connectWallet ethereum s = (Inr a, s1) \<and> checkNetwork ethereum s1 = (Inr st, s2)
        \<and> ns_valid st \<and> checkUserRole a s2 = (Inr r, s3)"
  then show "login ethereum s =
             (if rr_role r = None then
                Inl (Error ''This wallet is not registered. Please register first to access the platform.'')
              else Inr \<lparr>lr_address = a, lr_role = rr_role r,
                        lr_employerAddress = rr_employerAddress r\<rparr>, s3)"
    using login_resolved [of ethereum s a s1 st s2 r s3] by (simp add: notRegistered_def)
next
  fix e s'
  assume l: "login ethereum (s\<lparr>h_isLoading := True, h_error := None\<rparr>) = (Inl e, s')"
  have u: "user s' = user s" using preservesD [OF login_preserves_user l] by simp
  show "fst (useAuthentication_login ethereum s) = Inl e"
    and "user (snd (useAuthentication_login ethereum s)) = user s"
    and "trace (snd (useAuthentication_login ethereum s)) = trace s'"
    using hook_failed [OF l] u by simp_all
next
  fix res s'
  assume l: "login ethereum (s\<lparr>h_isLoading := True, h_error := None\<rparr>) = (Inr res, s')"
  have u: "user s' = user s" using preservesD [OF login_preserves_user l] by simp
  show "lr_role res \<noteq> None" using login_returns_role [OF l] .
  show "fst (useAuthentication_login ethereum s) = Inr ()"
    using hook_succeeded [OF l] by simp
  show "user (snd (useAuthentication_login ethereum s)) =
               (user s)\<lparr>u_address := Some (lr_address res), u_role := lr_role res,
                        u_isConnected := True, u_isAuthenticated := True,
                        u_employerAddress :=
                          (if lr_role res = Some Employee \<and> truthy (lr_employerAddress res)
                           then lr_employerAddress res else u_employerAddress (user s))\<rparr>"
    using hook_succeeded [OF l] u by simp
  show "trace (snd (useAuthentication_login ethereum s)) =
               trace s' @ [SetAddress (Some (lr_address res)), SetRole (lr_role res),
                           SetIsConnected True, SetIsAuthenticated True]
                 @ (if lr_role res = Some Employee \<and> truthy (lr_employerAddress res)
                    then [SetEmployerAddress (lr_employerAddress res)] else [])
                 @ [RouterPush (if lr_role res = Some Employer then ''/employer''
                                else ''/employee'')]"
    using hook_succeeded [OF l] by simp
qed

theorem login_flow_order_witness:
  "fst (useAuthentication_login (Some refEthereum) (refWorld [bob] 50002 demoDb)) = Inr ()
   \<and> user (snd (useAuthentication_login (Some refEthereum) (refWorld [bob] 50002 demoDb)))
       = \<lparr>u_address = Some bob, u_role = Some Employee, u_isConnected = True,
          u_isAuthenticated = True, u_employerAddress = Some alice\<rparr>
   \<and> trace (snd (useAuthentication_login (Some refEthereum) (refWorld [bob] 50002 demoDb)))
       = [EthRequestAccounts, EthAccounts, SignerGetAddress, EthChainId, EthChainId,
          DbGet EmployersStore bob, DbGet EmployeesStore bob,
          SetAddress (Some bob), SetRole (Some Employee), SetIsConnected True,
          SetIsAuthenticated True, SetEmployerAddress (Some alice), RouterPush ''/employee'']
   \<and> sorted (map phase
         (trace (snd (useAuthentication_login (Some refEthereum) (refWorld [bob] 50002 demoDb)))))
   \<and> fst (login (Some refEthereum) (refWorld [alice] 42 demoDb))
       = Inl (Error ''Please switch to a supported network to login. Current network: Unknown Network'')
   \<and> trace (snd (login (Some refEthereum) (refWorld [alice] 42 demoDb)))
       = [EthRequestAccounts, EthAccounts, SignerGetAddress, EthChainId, EthChainId]
   \<and> fst (useAuthentication_login (Some refEthereum) (refWorld [carol] 50002 demoDb))
       = Inl (Error ''This wallet is not registered. Please register first to access the platform.'')
   \<and> user (snd (useAuthentication_login (Some refEthereum) (refWorld [carol] 50002 demoDb)))
       = emptyUser
   \<and> (\<exists>e'. fst (login (Some (busyWallet userRejected)) (refWorld [alice] 50002 demoDb)) = Inl e')
   \<and> trace (snd (login (Some (busyWallet userRejected)) (refWorld [alice] 50002 demoDb)))
       = [EthRequestAccounts]"
proof -
  let ?E = "Some refEthereum"
  let ?ok = "\<lparr>ns_valid = True, ns_chainId = Num 50002, ns_name = ''PHAROS''\<rparr>"
  have v: "ns_valid ?ok" by simp
  \<comment> \<open>bob, an employee of alice\<close>
  let ?b = "refWorld [bob] 50002 demoDb"
  let ?bi = "?b\<lparr>h_isLoading := True, h_error := None\<rparr>"
  let ?b1 = "?bi\<lparr>signer := True,
       trace := trace ?bi @ [EthRequestAccounts, EthAccounts, SignerGetAddress, EthChainId]\<rparr>"
  let ?b2 = "?b1\<lparr>trace := trace ?b1 @ [EthChainId]\<rparr>"
  let ?b3 = "?b2\<lparr>trace := trace ?b2 @ [DbGet EmployersStore bob, DbGet EmployeesStore bob]\<rparr>"
  let ?rb = "\<lparr>rr_role = Some Employee, rr_employerAddress = Some alice\<rparr>"
  let ?lb = "\<lparr>lr_address = bob, lr_role = Some Employee, lr_employerAddress = Some alice\<rparr>"
  have b1: "connectWallet ?E ?bi = (Inr bob, ?b1)"
    by (rule ref_connectWallet) (simp_all add: refWorld_def names_distinct)
  have b2: "checkNetwork ?E ?b1 = (Inr ?ok, ?b2)"
    by (simp add: ref_checkNetwork refWorld_def toString_16_50002 statusOf_c352)
  have b3: "checkUserRole bob ?b2 = (Inr ?rb, ?b3)"
    by (simp add: checkUserRole_healthy roleOf_def refWorld_def demoDb_def names_distinct)
  have lb: "login ?E ?bi = (Inr ?lb, ?b3)"
    using login_flow_order [of ?E ?bi, THEN conjunct2, THEN conjunct2, THEN conjunct2,
        THEN conjunct1, rule_format, OF conjI [OF b1 conjI [OF b2 conjI [OF v b3]]]]
    by simp
  note hb = login_flow_order [of ?E ?b, THEN conjunct2, THEN conjunct2, THEN conjunct2,
        THEN conjunct2, THEN conjunct2, rule_format, OF lb]
  have hb1: "fst (useAuthentication_login ?E ?b) = Inr ()"
    using hb by simp
  have hb2: "user (snd (useAuthentication_login ?E ?b)) =
      \<lparr>u_address = Some bob, u_role = Some Employee, u_isConnected = True,
       u_isAuthenticated = True, u_employerAddress = Some alice\<rparr>"
    using hb by (simp add: refWorld_def emptyUser_def truthy_def names_distinct)
  have hb3: "trace (snd (useAuthentication_login ?E ?b)) =
      [EthRequestAccounts, EthAccounts, SignerGetAddress, EthChainId, EthChainId,
       DbGet EmployersStore bob, DbGet EmployeesStore bob,
       SetAddress (Some bob), SetRole (Some Employee), SetIsConnected True,
       SetIsAuthenticated True, SetEmployerAddress (Some alice), RouterPush ''/employee'']"
    using hb by (simp add: refWorld_def truthy_def names_distinct)
  obtain t where "trace (snd (useAuthentication_login ?E ?b)) = trace ?b @ t"
    and "sorted (map phase t)"
    using login_flow_order [of ?E ?b, THEN conjunct1, rule_format,
        of "fst (useAuthentication_login ?E ?b)" "snd (useAuthentication_login ?E ?b)"]
    by auto
  then have hb4: "sorted (map phase (trace (snd (useAuthentication_login ?E ?b))))"
    by (simp add: refWorld_def)
  \<comment> \<open>alice on a chain that is not supported\<close>
  let ?a = "refWorld [alice] 42 demoDb"
  let ?a1 = "?a\<lparr>signer := True,
       trace := trace ?a @ [EthRequestAccounts, EthAccounts, SignerGetAddress, EthChainId]\<rparr>"
  let ?a2 = "?a1\<lparr>trace := trace ?a1 @ [EthChainId]\<rparr>"
  let ?no = "\<lparr>ns_valid = False, ns_chainId = Num 42, ns_name = ''Unknown Network''\<rparr>"
  have nv: "\<not> ns_valid ?no" by simp
  have a1: "connectWallet ?E ?a = (Inr alice, ?a1)"
    by (rule ref_connectWallet) (simp_all add: refWorld_def names_distinct)
  have a2: "checkNetwork ?E ?a1 = (Inr ?no, ?a2)"
    by (simp add: ref_checkNetwork refWorld_def values_42 statusOf_2a)
  note la = login_flow_order [of ?E ?a, THEN conjunct2, THEN conjunct2, THEN conjunct1,
        rule_format, OF conjI [OF a1 conjI [OF a2 nv]], THEN conjunct1]
  have la1: "fst (login ?E ?a) =
      Inl (Error ''Please switch to a supported network to login. Current network: Unknown Network'')"
    using la by simp
  have la2: "trace (snd (login ?E ?a)) =
      [EthRequestAccounts, EthAccounts, SignerGetAddress, EthChainId, EthChainId]"
    using la by (simp add: refWorld_def)
  \<comment> \<open>carol, who is not registered\<close>
  let ?c = "refWorld [carol] 50002 demoDb"
  let ?ci = "?c\<lparr>h_isLoading := True, h_error := None\<rparr>"
  let ?c1 = "?ci\<lparr>signer := True,
       trace := trace ?ci @ [EthRequestAccounts, EthAccounts, SignerGetAddress, EthChainId]\<rparr>"
  let ?c2 = "?c1\<lparr>trace := trace ?c1 @ [EthChainId]\<rparr>"
  let ?c3 = "?c2\<lparr>trace := trace ?c2 @ [DbGet EmployersStore carol, DbGet EmployeesStore carol]\<rparr>"
  let ?rc = "\<lparr>rr_role = None, rr_employerAddress = None\<rparr>"
  let ?nr = "Error ''This wallet is not registered. Please register first to access the platform.''"
  have c1: "connectWallet ?E ?ci = (Inr carol, ?c1)"
    by (rule ref_connectWallet) (simp_all add: refWorld_def names_distinct)
  have c2: "checkNetwork ?E ?c1 = (Inr ?ok, ?c2)"
    by (simp add: ref_checkNetwork refWorld_def toString_16_50002 statusOf_c352)
  have c3: "checkUserRole carol ?c2 = (Inr ?rc, ?c3)"
    by (simp add: checkUserRole_healthy roleOf_def refWorld_def demoDb_def names_distinct)
  have lc: "login ?E ?ci = (Inl ?nr, ?c3)"
    using login_flow_order [of ?E ?ci, THEN conjunct2, THEN conjunct2, THEN conjunct2,
        THEN conjunct1, rule_format, OF conjI [OF c1 conjI [OF c2 conjI [OF v c3]]]]
    by simp
  note hc = login_flow_order [of ?E ?c, THEN conjunct2, THEN conjunct2, THEN conjunct2,
        THEN conjunct2, THEN conjunct1, rule_format, OF lc]
  have hc1: "fst (useAuthentication_login ?E ?c) = Inl ?nr"
    using hc by simp
  have hc2: "user (snd (useAuthentication_login ?E ?c)) = emptyUser"
    using hc by (simp add: refWorld_def)
  \<comment> \<open>a user who rejects the connection\<close>
  let ?r = "refWorld [alice] 50002 demoDb"
  let ?r1 = "?r\<lparr>trace := trace ?r @ [EthRequestAccounts]\<rparr>"
  have r1: "connectWallet (Some (busyWallet userRejected)) ?r
            = (Inl (connectionError userRejected), ?r1)"
    by (rule busy_connectWallet)
  obtain e' where lr: "login (Some (busyWallet userRejected)) ?r = (Inl e', ?r1)"
    using login_flow_order [of "Some (busyWallet userRejected)" ?r, THEN conjunct2, THEN conjunct1,
        rule_format, OF r1]
    by blast
  have lr1: "\<exists>e'. fst (login (Some (busyWallet userRejected)) ?r) = Inl e'"
    using lr by simp
  have lr2: "trace (snd (login (Some (busyWallet userRejected)) ?r)) = [EthRequestAccounts]"
    using lr by (simp add: refWorld_def)
  from hb1 hb2 hb3 hb4 la1 la2 hc1 hc2 lr1 lr2 show ?thesis by simp
qed

section \<open>Registration\<close>

lemma ensureSigner_preserves_db: "preserves db (ensureSigner ethereum)"
  unfolding preserves_def
proof
  fix s
  have c: "preserves db (await (connectWallet ethereum) (\<lambda>_. return ()))"
    by (intro preserves_intros connectWallet_preserves_db)
  obtain r s1 where r: "await (connectWallet ethereum) (\<lambda>_. return ()) s = (r, s1)"
    by (cases "await (connectWallet ethereum) (\<lambda>_. return ()) s")
  have "db s1 = db s" using preservesD [OF c r] .
  then show "db (snd (ensureSigner ethereum s)) = db s"
    using r by (cases r) (simp_all add: ensureSigner_def await_def return_def throw_def)
qed

lemma signerGetAddress_preserves_db: "preserves db (signerGetAddress ethereum)"
  unfolding signerGetAddress_def
  by (intro preserves_intros preserves_rpc) simp

lemma rethrowSigner_throws: "\<exists>e'. rethrowSigner e s = (Inl e', s)"
  by (simp add: rethrowSigner_def throw_def)

lemma try_catch_rethrowSigner:
  assumes "m s = (Inl e, s')"
  shows "\<exists>e'. try_catch m rethrowSigner s = (Inl e', s')"
  using assms rethrowSigner_throws [of e s'] by (simp add: try_catch_def)

lemma rethrowSigner_Error:
  "msg \<noteq> ''No signer available'' \<Longrightarrow> rethrowSigner (Error msg) = throw (Error msg)"
  by (simp add: rethrowSigner_def Error_def)

lemma registerAsEmployee_invalid:
  assumes "getAddress employerAddress = None"
  shows "registerAsEmployee getAddress ethereum employerAddress skip s =
     (Inl (Error ''Invalid employer address format. Please provide a valid Ethereum address.''), s)"
  using assms
  by (simp add: registerAsEmployee_def try_catch_def throw_def rethrowSigner_def Error_def)

lemma registerAsEmployee_self:
  assumes norm: "getAddress employerAddress = Some n"
    and self: "\<forall>eth w a w'. ethereum = Some eth \<and> signer_getAddress eth w = (Inr a, w')
                   \<longrightarrow> toLowerCase a = toLowerCase n"
  shows "\<exists>e s'. registerAsEmployee getAddress ethereum employerAddress skip s = (Inl e, s')
                \<and> db s' = db s"
proof -
  obtain r1 s1 where e1: "ensureSigner ethereum s = (r1, s1)" by (cases "ensureSigner ethereum s")
  have d1: "db s1 = db s" using preservesD [OF ensureSigner_preserves_db e1] .
  show ?thesis
  proof (cases r1)
    case (Inl e)
    with e1 d1 show ?thesis by (simp add: norm registerAsEmployee_def try_catch_def await_def rethrowSigner_def throw_def)
  next
    case (Inr u)
    obtain st s2 where e2: "checkNetwork ethereum s1 = (Inr st, s2)"
      using checkNetwork_returns by blast
    have d2: "db s2 = db s1" using preservesD [OF checkNetwork_preserves_db e2] .
    show ?thesis
    proof (cases "ns_valid st")
      case False
      with e1 Inr e2 d1 d2 show ?thesis
        by (simp add: norm registerAsEmployee_def try_catch_def await_def rethrowSigner_def throw_def)
    next
      case True
      obtain r3 s3 where e3: "signerGetAddress ethereum s2 = (r3, s3)"
        by (cases "signerGetAddress ethereum s2")
      have d3: "db s3 = db s2" using preservesD [OF signerGetAddress_preserves_db e3] .
      show ?thesis
      proof (cases r3)
        case (Inl e)
        with e1 Inr e2 True e3 d1 d2 d3 show ?thesis
          by (simp add: norm registerAsEmployee_def try_catch_def await_def rethrowSigner_def throw_def)
      next
        case r3: (Inr a)
        have "toLowerCase a = toLowerCase n"
        proof (cases ethereum)
          case None
          with e3 r3 show ?thesis by (simp add: signerGetAddress_def throw_def)
        next
          case (Some eth)
          with e3 r3 have "\<exists>w'. signer_getAddress eth (wallet s2) = (Inr a, w')"
            by (auto simp: signerGetAddress_def rpc_def split: prod.splits)
          with self Some show ?thesis by blast
        qed
        with e1 Inr e2 True e3 r3 d1 d2 d3 show ?thesis
          by (simp add: norm registerAsEmployee_def try_catch_def await_def rethrowSigner_def throw_def)
      qed
    qed
  qed
qed

lemma pinned_ops:
  "eth_requestAccounts (pinnedSigner a) w =
     (if rw_approves w then (Inr (Some (rw_accounts w)), w) else (Inl userRejected, w))"
  "eth_accounts (pinnedSigner a) w = (Inr (rw_accounts w), w)"
  "signer_getAddress (pinnedSigner a) w = (Inr a, w)"
  "eth_chainId (pinnedSigner a) w = (Inr (''0x'' @ toString 16 (rw_chain w)), w)"
  by (simp_all add: pinnedSigner_def refEthereum_def)

lemma sample_addresses:
  "toLowerCase alice = aliceLower" "toLowerCase aliceLower = aliceLower"
  "sampleGetAddress aliceLower = Some aliceLower" "sampleGetAddress ''Acme Ltd'' = None"
  by (simp_all add: alice_def aliceLower_def toLowerCase_def sampleGetAddress_def isHexAddress_def
        hexDigitVal_def)

lemma pinned_checkNetwork:
  "checkNetwork (Some (pinnedSigner a)) s =
     (Inr (statusOf (''0x'' @ toString 16 (rw_chain (wallet s)))), s\<lparr>trace := trace s @ [EthChainId]\<rparr>)"
  using checkNetwork_reported [OF pinned_ops(4), of a s] by simp

lemma pinned_connectWallet:
  "a \<noteq> [] \<Longrightarrow> rw_approves (wallet s) \<Longrightarrow> rw_accounts (wallet s) = b # bs \<Longrightarrow>
   connectWallet (Some (pinnedSigner a)) s =
     (Inr a, s\<lparr>signer := True,
              trace := trace s @ [EthRequestAccounts, EthAccounts, SignerGetAddress, EthChainId]\<rparr>)"
  by (simp add: connectWallet_def try_catch_def await_def rpc_def modify_def return_def throw_def
        pinned_checkNetwork pinned_ops)

text \<open>
  C10. \<open>registerAsEmployee\<close> throws, leaving the state as it was, when the library rejects
  the employer address as malformed. It also throws, with both stores unchanged, whenever
  the signer's address equals the employer address up to letter case, the library's
  normalisation changing at most the letter case of that address; when the call gets as
  far as reading the signer's address, the error is the one that refuses one's own address
  as employer.
\<close>

theorem registerAsEmployee_rejects_self:
  "(getAddress employerAddress = None \<longrightarrow>
      registerAsEmployee getAddress ethereum employerAddress skip s =
        (Inl (Error ''Invalid employer address format. Please provide a valid Ethereum address.''), s))
   \<and> ((\<forall>n. getAddress employerAddress = Some n \<longrightarrow> toLowerCase n = toLowerCase employerAddress)
      \<and> (\<forall>eth w a w'. ethereum = Some eth \<and> signer_getAddress eth w = (Inr a, w')
            \<longrightarrow> toLowerCase a = toLowerCase employerAddress)
      \<longrightarrow> (\<exists>e s'. registerAsEmployee getAddress ethereum employerAddress skip s = (Inl e, s')
                 \<and> employers (db s') = employers (db s) \<and> employees (db s') = employees (db s)))
   \<and> (\<forall>n s1 st s2 a s3.
        getAddress employerAddress = Some n \<and> ensureSigner ethereum s = (Inr (), s1)
        \<and> checkNetwork ethereum s1 = (Inr st, s2) \<and> ns_valid st
        \<and> signerGetAddress ethereum s2 = (Inr a, s3) \<and> toLowerCase a = toLowerCase n
        \<longrightarrow> registerAsEmployee getAddress ethereum employerAddress skip s =
              (Inl (Error ''You cannot register as an employee using your own address as the employer.''),
               s3))"
proof (intro conjI allI impI)
  assume "getAddress employerAddress = None"
  then show "registerAsEmployee getAddress ethereum employerAddress skip s =
        (Inl (Error ''Invalid employer address format. Please provide a valid Ethereum address.''), s)"
    by (rule registerAsEmployee_invalid)
next
  assume h: "(\<forall>n. getAddress employerAddress = Some n \<longrightarrow> toLowerCase n = toLowerCase employerAddress)
      \<and> (\<forall>eth w a w'. ethereum = Some eth \<and> signer_getAddress eth w = (Inr a, w')
            \<longrightarrow> toLowerCase a = toLowerCase employerAddress)"
  show "\<exists>e s'. registerAsEmployee getAddress ethereum employerAddress skip s = (Inl e, s')
                 \<and> employers (db s') = employers (db s) \<and> employees (db s') = employees (db s)"
  proof (cases "getAddress employerAddress")
    case None
    then show ?thesis
      using registerAsEmployee_invalid [of getAddress employerAddress ethereum skip s] by simp
  next
    case (Some n)
    with h have eq: "toLowerCase n = toLowerCase employerAddress" by simp
    from h have "\<forall>eth w a w'. ethereum = Some eth \<and> signer_getAddress eth w = (Inr a, w')
                   \<longrightarrow> toLowerCase a = toLowerCase n"
      unfolding eq by blast
    with Some registerAsEmployee_self [of getAddress employerAddress n ethereum skip s]
    obtain e s' where "registerAsEmployee getAddress ethereum employerAddress skip s = (Inl e, s')"
      and "db s' = db s"
      by blast
    then show ?thesis by simp
  qed
next
  fix n s1 st s2 a s3
  assume "getAddress employerAddress = Some n \<and> ensureSigner ethereum s = (Inr (), s1)
        \<and> checkNetwork ethereum s1 = (Inr st, s2) \<and> ns_valid st
        \<and> signerGetAddress ethereum s2 = (Inr a, s3) \<and> toLowerCase a = toLowerCase n"
  then show "registerAsEmployee getAddress ethereum employerAddress skip s =
              (Inl (Error ''You cannot register as an employee using your own address as the employer.''),
               s3)"
    by (simp add: registerAsEmployee_def try_catch_def await_def rethrowSigner_def throw_def
          Error_def)
qed

theorem registerAsEmployee_rejects_self_witness:
  "fst (registerAsEmployee sampleGetAddress (Some (pinnedSigner alice)) aliceLower False
          (refWorld [alice] 50002 demoDb))
     = Inl (Error ''You cannot register as an employee using your own address as the employer.'')
   \<and> (\<exists>e s'. registerAsEmployee sampleGetAddress (Some (pinnedSigner alice)) aliceLower False
                 (refWorld [alice] 50002 demoDb) = (Inl e, s')
             \<and> employers (db s') = employers demoDb \<and> employees (db s') = employees demoDb)
   \<and> registerAsEmployee sampleGetAddress (Some refEthereum) ''Acme Ltd'' False
        (refWorld [alice] 50002 demoDb)
     = (Inl (Error ''Invalid employer address format. Please provide a valid Ethereum address.''),
        refWorld [alice] 50002 demoDb)"
proof -
  let ?P = "pinnedSigner alice"
  let ?s = "refWorld [alice] 50002 demoDb"
  let ?s1 = "?s\<lparr>signer := True,
                trace := trace ?s @ [EthRequestAccounts, EthAccounts, SignerGetAddress, EthChainId]\<rparr>"
  let ?st = "\<lparr>ns_valid = True, ns_chainId = Num 50002, ns_name = ''PHAROS''\<rparr>"
  let ?s2 = "?s1\<lparr>trace := trace ?s1 @ [EthChainId]\<rparr>"
  let ?s3 = "?s2\<lparr>wallet := wallet ?s2, trace := trace ?s2 @ [SignerGetAddress]\<rparr>"
  have c: "connectWallet (Some ?P) ?s = (Inr alice, ?s1)"
    by (rule pinned_connectWallet) (simp_all add: refWorld_def names_distinct)
  have e1: "ensureSigner (Some ?P) ?s = (Inr (), ?s1)"
    using c by (simp add: ensureSigner_def await_def return_def refWorld_def)
  have e2: "checkNetwork (Some ?P) ?s1 = (Inr ?st, ?s2)"
    by (simp add: pinned_checkNetwork refWorld_def toString_16_50002 statusOf_c352)
  have e3: "signerGetAddress (Some ?P) ?s2 = (Inr alice, ?s3)"
    by (simp add: signerGetAddress_def rpc_def pinned_ops)
  have lib: "\<forall>n. sampleGetAddress aliceLower = Some n \<longrightarrow> toLowerCase n = toLowerCase aliceLower"
    by (simp add: sample_addresses)
  have self: "\<forall>eth w a w'. Some ?P = Some eth \<and> signer_getAddress eth w = (Inr a, w')
                \<longrightarrow> toLowerCase a = toLowerCase aliceLower"
    by (simp add: pinned_ops sample_addresses)
  have l: "toLowerCase alice = toLowerCase aliceLower" by (simp add: sample_addresses)
  have v: "ns_valid ?st" by simp
  note t = registerAsEmployee_rejects_self [of sampleGetAddress aliceLower "Some ?P" False ?s]
  from t lib self
  have 2: "\<exists>e s'. registerAsEmployee sampleGetAddress (Some ?P) aliceLower False ?s = (Inl e, s')
             \<and> employers (db s') = employers (db ?s) \<and> employees (db s') = employees (db ?s)"
    by blast
  from t sample_addresses(3) e1 e2 v e3 l
  have 1: "registerAsEmployee sampleGetAddress (Some ?P) aliceLower False ?s =
      (Inl (Error ''You cannot register as an employee using your own address as the employer.''), ?s3)"
    by blast
  from registerAsEmployee_rejects_self [of sampleGetAddress "''Acme Ltd''" "Some refEthereum" False ?s]
    sample_addresses(4)
  have 3: "registerAsEmployee sampleGetAddress (Some refEthereum) ''Acme Ltd'' False ?s
     = (Inl (Error ''Invalid employer address format. Please provide a valid Ethereum address.''), ?s)"
    by blast
  have d: "db ?s = demoDb" by (simp add: refWorld_def)
  from 1 2 3 d show ?thesis by simp
qed

lemma roleOf_None: "rr_role (roleOf d a) = None \<longleftrightarrow> \<not> registered d a"
  by (simp add: roleOf_def registered_def split: option.split)

lemma signerGetAddress_Inr:
  assumes "signerGetAddress ethereum s = (Inr a, s')"
  shows "\<exists>eth w'. ethereum = Some eth \<and> signer_getAddress eth (wallet s) = (Inr a, w')"
  using assms
  by (cases ethereum) (auto simp: signerGetAddress_def throw_def rpc_def split: prod.splits)

lemma registerAsEmployer_stores:
  assumes h: "faults (db s) = []"
  shows "\<exists>r s'. registerAsEmployer ethereum name s = (r, s')
           \<and> ((\<exists>e. r = Inl e) \<and> db s' = db s
              \<or> (\<exists>a w eth rec. r = Inr True \<and> ethereum = Some eth
                    \<and> fst (signer_getAddress eth w) = Inr a \<and> \<not> registered (db s) a
                    \<and> db s' = (db s)\<lparr>employers := (employers (db s))(a \<mapsto> rec)\<rparr>))"
proof -
  obtain r1 s1 where e1: "ensureSigner ethereum s = (r1, s1)" by (cases "ensureSigner ethereum s")
  have d1: "db s1 = db s" using preservesD [OF ensureSigner_preserves_db e1] .
  show ?thesis
  proof (cases r1)
    case (Inl e)
    with e1 d1 show ?thesis
      by (simp add: registerAsEmployer_def try_catch_def await_def rethrowSigner_def throw_def)
  next
    case (Inr u)
    obtain st s2 where e2: "checkNetwork ethereum s1 = (Inr st, s2)"
      using checkNetwork_returns by blast
    have d2: "db s2 = db s1" using preservesD [OF checkNetwork_preserves_db e2] .
    show ?thesis
    proof (cases "ns_valid st")
      case False
      with e1 Inr e2 d1 d2 show ?thesis
        by (simp add: registerAsEmployer_def try_catch_def await_def rethrowSigner_def throw_def)
    next
      case True
      obtain r3 s3 where e3: "signerGetAddress ethereum s2 = (r3, s3)"
        by (cases "signerGetAddress ethereum s2")
      have d3: "db s3 = db s2" using preservesD [OF signerGetAddress_preserves_db e3] .
      show ?thesis
      proof (cases r3)
        case (Inl e)
        with e1 Inr e2 True e3 d1 d2 d3 show ?thesis
          by (simp add: registerAsEmployer_def try_catch_def await_def rethrowSigner_def throw_def)
      next
        case r3: (Inr a)
        obtain eth w' where eth: "ethereum = Some eth"
          and sg: "signer_getAddress eth (wallet s2) = (Inr a, w')"
          using signerGetAddress_Inr e3 r3 by blast
        have f3: "faults (db s3) = []" using h d1 d2 d3 by simp
        note cu = checkUserRole_healthy [OF f3, of a]
        show ?thesis
        proof (cases "registered (db s) a")
          case True
          then have "rr_role (roleOf (db s3) a) \<noteq> None"
            using d1 d2 d3 by (simp add: roleOf_None)
          then obtain ro where ro: "rr_role (roleOf (db s3) a) = Some ro" by blast
          show ?thesis
            using e1 Inr e2 \<open>ns_valid st\<close> e3 r3 cu ro d1 d2 d3
            by (cases ro)
               (simp_all add: registerAsEmployer_def try_catch_def await_def rethrowSigner_def
                  throw_def)
        next
          case False
          then have ro: "rr_role (roleOf (db s3) a) = None"
            using d1 d2 d3 by (simp add: roleOf_None)
          from False have en: "employers (db s3) a = None"
            using d1 d2 d3 by (simp add: registered_def)
          have "fst (signer_getAddress eth (wallet s2)) = Inr a" using sg by simp
          then show ?thesis
            using e1 Inr e2 \<open>ns_valid st\<close> e3 r3 cu ro d1 d2 d3 f3 en False eth
            by (auto simp: registerAsEmployer_def try_catch_def await_def rethrowSigner_def
                  throw_def return_def employerDB_add_healthy)
        qed
      qed
    qed
  qed
qed

lemma registerAsEmployee_stores:
  assumes h: "faults (db s) = []"
  shows "\<exists>r s'. registerAsEmployee getAddress ethereum ea skip s = (r, s')
           \<and> ((\<exists>e. r = Inl e) \<and> db s' = db s
              \<or> (\<exists>a w eth rec. r = Inr True \<and> ethereum = Some eth
                    \<and> fst (signer_getAddress eth w) = Inr a \<and> \<not> registered (db s) a
                    \<and> db s' = (db s)\<lparr>employees := (employees (db s))(a \<mapsto> rec)\<rparr>))"
proof (cases "getAddress ea")
  case None
  then show ?thesis
    using registerAsEmployee_invalid [of getAddress ea ethereum skip s] by simp
next
  case (Some n)
  obtain r1 s1 where e1: "ensureSigner ethereum s = (r1, s1)" by (cases "ensureSigner ethereum s")
  have d1: "db s1 = db s" using preservesD [OF ensureSigner_preserves_db e1] .
  show ?thesis
  proof (cases r1)
    case (Inl e)
    with e1 d1 Some show ?thesis
      by (simp add: registerAsEmployee_def try_catch_def await_def rethrowSigner_def throw_def)
  next
    case (Inr u)
    obtain st s2 where e2: "checkNetwork ethereum s1 = (Inr st, s2)"
      using checkNetwork_returns by blast
    have d2: "db s2 = db s1" using preservesD [OF checkNetwork_preserves_db e2] .
    show ?thesis
    proof (cases "ns_valid st")
      case False
      with e1 Inr e2 d1 d2 Some show ?thesis
        by (simp add: registerAsEmployee_def try_catch_def await_def rethrowSigner_def throw_def)
    next
      case True
      obtain r3 s3 where e3: "signerGetAddress ethereum s2 = (r3, s3)"
        by (cases "signerGetAddress ethereum s2")
      have d3: "db s3 = db s2" using preservesD [OF signerGetAddress_preserves_db e3] .
      show ?thesis
      proof (cases r3)
        case (Inl e)
        with e1 Inr e2 True e3 d1 d2 d3 Some show ?thesis
          by (simp add: registerAsEmployee_def try_catch_def await_def rethrowSigner_def throw_def)
      next
        case r3: (Inr a)
        obtain eth w' where eth: "ethereum = Some eth"
          and sg: "signer_getAddress eth (wallet s2) = (Inr a, w')"
          using signerGetAddress_Inr e3 r3 by blast
        have f3: "faults (db s3) = []" using h d1 d2 d3 by simp
        note cu = checkUserRole_healthy [OF f3, of a]
        show ?thesis
        proof (cases "toLowerCase a = toLowerCase n")
          case True
          with e1 Inr e2 \<open>ns_valid st\<close> e3 r3 d1 d2 d3 Some show ?thesis
            by (simp add: registerAsEmployee_def try_catch_def await_def rethrowSigner_def
                  throw_def)
        next
          case other: False
          show ?thesis
          proof (cases "registered (db s) a")
            case True
            then have "rr_role (roleOf (db s3) a) \<noteq> None"
              using d1 d2 d3 by (simp add: roleOf_None)
            then obtain ro where ro: "rr_role (roleOf (db s3) a) = Some ro" by blast
            show ?thesis
              using e1 Inr e2 \<open>ns_valid st\<close> e3 r3 cu ro d1 d2 d3 Some other
              by (cases ro)
                 (simp_all add: registerAsEmployee_def try_catch_def await_def rethrowSigner_def
                    throw_def)
          next
            case False
            then have ro: "rr_role (roleOf (db s3) a) = None"
              using d1 d2 d3 by (simp add: roleOf_None)
            from False have en: "employees (db s3) a = None"
              using d1 d2 d3 by (simp add: registered_def)
            have sa: "fst (signer_getAddress eth (wallet s2)) = Inr a" using sg by simp
            show ?thesis
            proof (cases "\<not> skip \<and> employers (db s) n = None")
              case True
              then show ?thesis
                using e1 Inr e2 \<open>ns_valid st\<close> e3 r3 cu ro d1 d2 d3 f3 Some other
                by (simp add: registerAsEmployee_def try_catch_def await_def rethrowSigner_def
                      throw_def return_def employerDB_get_healthy Error_def)
            next
              case go: False
              show ?thesis
                using e1 Inr e2 \<open>ns_valid st\<close> e3 r3 cu ro d1 d2 d3 f3 en False eth Some other go sa
                by (auto simp: registerAsEmployee_def try_catch_def await_def rethrowSigner_def
                      throw_def return_def employerDB_get_healthy employeeDB_add_healthy)
            qed
          qed
        qed
      qed
    qed
  qed
qed

lemma freshSignerGetAddress_preserves_db: "preserves db (freshSignerGetAddress ethereum)"
  unfolding freshSignerGetAddress_def
  by (intro preserves_intros preserves_rpc) simp

lemma useEmployerStore_registerAsEmployer_existing:
  assumes "faults (db s) = []" and "freshSignerGetAddress ethereum s = (Inr a, s1)"
    and "employers (db s) a \<noteq> None"
  shows "\<exists>s'. useEmployerStore_registerAsEmployer ethereum s = (Inr (), s') \<and> db s' = db s"
proof -
  have d: "db s1 = db s" using preservesD [OF freshSignerGetAddress_preserves_db assms(2)] .
  then show ?thesis
    using assms
    by (auto simp: useEmployerStore_registerAsEmployer_def await_def employerDB_get_healthy
          return_def)
qed

lemma useEmployeeStore_registerAsEmployee_existing:
  assumes "faults (db s) = []" and "freshSignerGetAddress ethereum s = (Inr a, s1)"
    and "employees (db s) a \<noteq> None"
  shows "\<exists>s'. useEmployeeStore_registerAsEmployee ethereum ea s = (Inr (), s') \<and> db s' = db s"
proof -
  have d: "db s1 = db s" using preservesD [OF freshSignerGetAddress_preserves_db assms(2)] .
  then show ?thesis
    using assms
    by (auto simp: useEmployeeStore_registerAsEmployee_def await_def employeeDB_get_healthy
          return_def)
qed

lemma exclusive_add_employer:
  "exclusive d \<Longrightarrow> \<not> registered d a \<Longrightarrow> exclusive (d\<lparr>employers := (employers d)(a \<mapsto> rec)\<rparr>)"
  by (auto simp: exclusive_def registered_def)

lemma exclusive_add_employee:
  "exclusive d \<Longrightarrow> \<not> registered d a \<Longrightarrow> exclusive (d\<lparr>employees := (employees d)(a \<mapsto> rec)\<rparr>)"
  by (auto simp: exclusive_def registered_def)

lemma ref_freshSigner:
  "rw_accounts (wallet s) = a # as \<Longrightarrow>
   freshSignerGetAddress (Some refEthereum) s = (Inr a, s\<lparr>trace := trace s @ [SignerGetAddress]\<rparr>)"
  by (simp add: freshSignerGetAddress_def rpc_def ref_ops)

lemma demoDb_healthy: "faults (db (refWorld accounts chain demoDb)) = []"
  "exclusive (db (refWorld accounts chain demoDb))"
  using names_distinct by (auto simp: refWorld_def demoDb_def exclusive_def)

lemma demoDb_stores:
  "employers demoDb alice \<noteq> None" "employees demoDb bob \<noteq> None"
  "employers demoDb carol = None" "employees demoDb carol = None"
  "db (refWorld accounts chain demoDb) = demoDb"
  by (simp_all add: demoDb_def refWorld_def names_distinct)

text \<open>
  The two registration methods of the authentication service guard the stores: with
  lookups that succeed they keep any key from ending up in both (keys are compared as
  the stores compare them, by exact spelling).
\<close>

lemma authService_keeps_exclusive:
  assumes "faults (db s) = []" and "exclusive (db s)"
  shows "exclusive (db (snd (registerAsEmployer ethereum name s)))"
    and "exclusive (db (snd (registerAsEmployee getAddress ethereum ea skip s)))"
proof -
  show "exclusive (db (snd (registerAsEmployer ethereum name s)))"
    using registerAsEmployer_stores [OF assms(1), of ethereum name] assms(2)
    by (auto simp: exclusive_add_employer)
  show "exclusive (db (snd (registerAsEmployee getAddress ethereum ea skip s)))"
    using registerAsEmployee_stores [OF assms(1), of getAddress ethereum ea skip] assms(2)
    by (auto simp: exclusive_add_employee)
qed

text \<open>
  C4. \<open>handleEmployeeRegistration\<close> does not keep the roles exclusive: when an employer
  adds a first employee from her own wallet to empty stores, the call reports success and
  leaves the employer's address keyed in both stores, as her own employee. Neither the
  automatic registration of the employer nor the registration action of the employee store
  consults the other store, which the registration methods of the authentication service do.
\<close>

theorem handleEmployeeRegistration_breaks_exclusivity:
  "exclusive (db (refWorld [alice] 50002 emptyDb))
   \<and> fst (handleEmployeeRegistration (Some refEthereum) alice bobData (refWorld [alice] 50002 emptyDb))
       = Inr \<lparr>rg_success = True, rg_error = None\<rparr>
   \<and> employers (db (snd (handleEmployeeRegistration (Some refEthereum) alice bobData
         (refWorld [alice] 50002 emptyDb)))) alice \<noteq> None
   \<and> employees (db (snd (handleEmployeeRegistration (Some refEthereum) alice bobData
         (refWorld [alice] 50002 emptyDb)))) alice \<noteq> None
   \<and> \<not> exclusive (db (snd (handleEmployeeRegistration (Some refEthereum) alice bobData
         (refWorld [alice] 50002 emptyDb))))"
proof -
  let ?s = "refWorld [alice] 50002 emptyDb"
  let ?r = "handleEmployeeRegistration (Some refEthereum) alice bobData ?s"
  have run: "fst ?r = Inr \<lparr>rg_success = True, rg_error = None\<rparr>
             \<and> employers (db (snd ?r)) alice \<noteq> None \<and> employees (db (snd ?r)) alice \<noteq> None"
    by (simp add: handleEmployeeRegistration_def useEmployeeStore_registerAsEmployee_def
          try_catch_def await_def return_def throw_def
          employerDB_get_healthy employerDB_add_healthy employeeDB_get_healthy
          employeeDB_add_healthy ref_freshSigner
          refWorld_def emptyDb_def bobData_def names_distinct)
  then have "\<not> exclusive (db (snd ?r))"
    by (auto simp: exclusive_def)
  moreover have "exclusive (db ?s)"
    by (simp add: exclusive_def refWorld_def emptyDb_def)
  ultimately show ?thesis using run by simp
qed

section \<open>The route guard\<close>

lemma protected_iff:
  "list_ex (\<lambda>route. startsWith path route) protectedRoutes
     \<longleftrightarrow> startsWith path ''/employer'' \<or> startsWith path ''/employee''"
  by (simp add: protectedRoutes_def)

lemma protected_not_auth:
  "startsWith path ''/employer'' \<or> startsWith path ''/employee'' \<Longrightarrow> path \<notin> set authRoutes"
  by (auto simp: startsWith_def authRoutes_def)

lemma authRoutes_iff: "path \<in> set authRoutes \<longleftrightarrow> path = ''/auth'' \<or> path = ''/''"
  by (auto simp: authRoutes_def)

text \<open>
  C8 as amended. A cookie counts only when its value is not empty. A request for a path
  starting with \<open>/employer\<close> or \<open>/employee\<close> without such an \<open>auth-token\<close> is redirected
  to \<open>/auth\<close>; with one, and a \<open>user-role\<close> that is not the role of the path, to the other
  role's dashboard. A request for \<open>/auth\<close> or \<open>/\<close> with both cookies non-empty is
  redirected to \<open>/employer\<close> when \<open>user-role\<close> is \<open>employer\<close> and to \<open>/employee\<close>
  for any other value. Every other request passes through.
\<close>

theorem middleware_cases:
  "((startsWith (pathname request) ''/employer'' \<or> startsWith (pathname request) ''/employee'')
      \<and> \<not> truthy (cookies request ''auth-token'')
      \<longrightarrow> middleware request = Redirect ''/auth'')
   \<and> (startsWith (pathname request) ''/employer'' \<and> truthy (cookies request ''auth-token'')
      \<and> cookies request ''user-role'' \<noteq> Some ''employer''
      \<longrightarrow> middleware request = Redirect ''/employee'')
   \<and> (startsWith (pathname request) ''/employee'' \<and> truthy (cookies request ''auth-token'')
      \<and> cookies request ''user-role'' \<noteq> Some ''employee''
      \<longrightarrow> middleware request = Redirect ''/employer'')
   \<and> ((pathname request = ''/auth'' \<or> pathname request = ''/'')
      \<and> truthy (cookies request ''auth-token'') \<and> truthy (cookies request ''user-role'')
      \<longrightarrow> middleware request =
            Redirect (if cookies request ''user-role'' = Some ''employer'' then ''/employer''
                      else ''/employee''))
   \<and> (\<not> ((startsWith (pathname request) ''/employer'' \<or> startsWith (pathname request) ''/employee'')
            \<and> \<not> truthy (cookies request ''auth-token''))
      \<and> \<not> (startsWith (pathname request) ''/employer''
            \<and> cookies request ''user-role'' \<noteq> Some ''employer'')
      \<and> \<not> (startsWith (pathname request) ''/employee''
            \<and> cookies request ''user-role'' \<noteq> Some ''employee'')
      \<and> \<not> ((pathname request = ''/auth'' \<or> pathname request = ''/'')
            \<and> truthy (cookies request ''auth-token'') \<and> truthy (cookies request ''user-role''))
      \<longrightarrow> middleware request = Next)"
proof -
  have ex: "\<not> (startsWith (pathname request) ''/employer'' \<and> startsWith (pathname request) ''/employee'')"
    by (auto simp: startsWith_def)
  have na: "startsWith (pathname request) ''/employer'' \<or> startsWith (pathname request) ''/employee''
            \<Longrightarrow> pathname request \<noteq> ''/auth'' \<and> pathname request \<noteq> ''/''"
    by (auto simp: startsWith_def)
  show ?thesis
    using ex na
    by (auto simp: middleware_def Let_def protected_iff authRoutes_iff)
qed

theorem middleware_cases_witness:
  "middleware \<lparr>pathname = ''/employer/payroll'', cookies = Map.empty\<rparr> = Redirect ''/auth''
   \<and> middleware \<lparr>pathname = ''/employer'',
                  cookies = [''auth-token'' \<mapsto> ''0xA1'', ''user-role'' \<mapsto> ''employee'']\<rparr>
       = Redirect ''/employee''
   \<and> middleware \<lparr>pathname = ''/employee'',
                  cookies = [''auth-token'' \<mapsto> ''0xA1'', ''user-role'' \<mapsto> ''employer'']\<rparr>
       = Redirect ''/employer''
   \<and> middleware \<lparr>pathname = ''/auth'',
                  cookies = [''auth-token'' \<mapsto> ''0xA1'', ''user-role'' \<mapsto> ''employer'']\<rparr>
       = Redirect ''/employer''
   \<and> middleware \<lparr>pathname = ''/employer'',
                  cookies = [''auth-token'' \<mapsto> ''0xA1'', ''user-role'' \<mapsto> ''employer'']\<rparr>
       = Next"
  using middleware_cases [of "\<lparr>pathname = ''/employer/payroll'', cookies = Map.empty\<rparr>"]
        middleware_cases [of "\<lparr>pathname = ''/employer'',
                  cookies = [''auth-token'' \<mapsto> ''0xA1'', ''user-role'' \<mapsto> ''employee'']\<rparr>"]
        middleware_cases [of "\<lparr>pathname = ''/employee'',
                  cookies = [''auth-token'' \<mapsto> ''0xA1'', ''user-role'' \<mapsto> ''employer'']\<rparr>"]
        middleware_cases [of "\<lparr>pathname = ''/auth'',
                  cookies = [''auth-token'' \<mapsto> ''0xA1'', ''user-role'' \<mapsto> ''employer'']\<rparr>"]
        middleware_cases [of "\<lparr>pathname = ''/employer'',
                  cookies = [''auth-token'' \<mapsto> ''0xA1'', ''user-role'' \<mapsto> ''employer'']\<rparr>"]
  by (simp add: startsWith_def truthy_def)

text \<open>
  C8 as stated fails for a request that carries an \<open>auth-token\<close> cookie with an empty
  value: the claim lets a request for \<open>/employer\<close> with the matching role pass, the route
  guard redirects it to \<open>/auth\<close>.
\<close>

theorem middleware_empty_cookie:
  "cookies \<lparr>pathname = ''/employer'',
            cookies = [''auth-token'' \<mapsto> [], ''user-role'' \<mapsto> ''employer'']\<rparr> ''auth-token'' \<noteq> None
   \<and> middleware_claimed \<lparr>pathname = ''/employer'',
            cookies = [''auth-token'' \<mapsto> [], ''user-role'' \<mapsto> ''employer'']\<rparr> = Next
   \<and> middleware \<lparr>pathname = ''/employer'',
            cookies = [''auth-token'' \<mapsto> [], ''user-role'' \<mapsto> ''employer'']\<rparr> = Redirect ''/auth''"
  by (simp add: middleware_def middleware_claimed_def Let_def protectedRoutes_def startsWith_def
        truthy_def)

end
